theory Spec2Isabelle
  imports Main "HOL-Library.Word"
begin

section \<open>Stream teardown: deps/uv/src/unix/stream.c\<close>

text \<open>
  The part of \<^verbatim>\<open>stream.c\<close> that cancels the requests of a closed stream:
  \<^verbatim>\<open>uv__write_req_size\<close>, \<^verbatim>\<open>uv__stream_flush_write_queue\<close>,
  \<^verbatim>\<open>uv__write_callbacks\<close> and \<^verbatim>\<open>uv__stream_destroy\<close>.

  Conventions of the embedding.
  \<^item> \<^verbatim>\<open>size_t\<close> is a 64-bit word; \<^verbatim>\<open>-=\<close> on it wraps around.
  \<^item> A request is known by its address, a natural number \<open>req_id\<close>. A callback
    pointer is \<open>None\<close> when \<^verbatim>\<open>NULL\<close>.
  \<^item> The intrusive \<^verbatim>\<open>QUEUE\<close>s of the stream are lists, head first.
  \<^item> A failed \<^verbatim>\<open>assert\<close> and a call through a \<^verbatim>\<open>NULL\<close> function pointer end the
    run: the model returns \<open>Inl\<close> of the failure.
  \<^item> User callbacks and \<^verbatim>\<open>uv__req_unregister\<close> are outside this file. What the
    code does to them is recorded, in order, as a list of events; a callback is taken
    not to touch the stream it is called for.
  \<^item> \<^verbatim>\<open>UNIFIED_CALLBACK\<close> (a macro defined elsewhere) and \<^verbatim>\<open>uv__count_bufs\<close>
    (defined in uv-common.c) are parameters of the functions that use them.
  \<^item> \<^verbatim>\<open>req->handle\<close> of a queued write request is the stream whose queue holds
    it (\<^verbatim>\<open>uv_write2\<close> sets it so, \<^verbatim>\<open>uv__write\<close> asserts it).
\<close>

type_synonym size_t = "64 word"

text \<open>The members of \<^verbatim>\<open>enum callback_type\<close> that the two source files name.\<close>

datatype callback_type =
    UV_CONNECT_CB
  | UV_CONNECTION_CB
  | UV_SHUTDOWN_CB
  | UV_WRITE_CB
  | UV_READ_CB
  | UV_ALLOC_CB
  | CALLBACK_TYPE_ANY

text \<open>\<^verbatim>\<open>ECANCELED\<close> of errno.h (Linux).\<close>

definition ECANCELED :: int where
  "ECANCELED = 125"

datatype uv_flag = UV_CLOSING | UV_CLOSED | UV_STREAM_BLOCKING

datatype failure =
    Assertion_failed string
  | Null_function_call
  | Index_out_of_range
  | Divergence_fatal

datatype call_route = Invoke_callback_wrap | Direct_call

text \<open>
  \<open>Callback route cb type req status\<close>: the callback \<open>cb\<close> of request \<open>req\<close> is
  called with \<open>status\<close>, through \<^verbatim>\<open>invoke_callback_wrap\<close> or directly.
\<close>

datatype event =
    Req_unregister nat
  | Callback call_route "nat option" callback_type nat int

text \<open>\<^verbatim>\<open>uv_connect_t\<close> and \<^verbatim>\<open>uv_shutdown_t\<close>: the fields the teardown reads.\<close>

record uv_req_t =
  req_id :: nat
  cb :: "nat option"

text \<open>
  \<^verbatim>\<open>uv_write_t\<close>. \<open>bufs\<close> is \<open>None\<close> when \<^verbatim>\<open>req->bufs == NULL\<close>, else the
  lengths of the \<^verbatim>\<open>nbufs\<close> buffers.
\<close>

record uv_write_t = uv_req_t +
  error :: int
  bufs :: "size_t list option"
  write_index :: nat

record uv_stream_t =
  flags :: "uv_flag set"
  io_watcher_active :: bool
  connect_req :: "uv_req_t option"
  shutdown_req :: "uv_req_t option"
  write_queue :: "uv_write_t list"
  write_completed_queue :: "uv_write_t list"
  write_queue_size :: size_t

text \<open>
  \<^verbatim>\<open>uv__write_req_size\<close>; \<open>wqs\<close> is \<^verbatim>\<open>req->handle->write_queue_size\<close>.
\<close>

definition uv__write_req_size ::
  "(size_t list \<Rightarrow> size_t) \<Rightarrow> size_t \<Rightarrow> uv_write_t \<Rightarrow> failure + size_t" where
  "uv__write_req_size uv__count_bufs wqs req =
     (case bufs req of
        None \<Rightarrow> Inl (Assertion_failed ''req->bufs != NULL'')
      | Some bs \<Rightarrow>
          if length bs < write_index req then Inl Index_out_of_range
          else
            let size = uv__count_bufs (drop (write_index req) bs)
            in if wqs < size
               then Inl (Assertion_failed ''req->handle->write_queue_size >= size'')
               else Inr size)"

text \<open>
  The call of a request's callback: \<^verbatim>\<open>invoke_callback_wrap((any_func) cb, type, req, status)\<close>
  under \<^verbatim>\<open>UNIFIED_CALLBACK\<close>, else \<^verbatim>\<open>cb(req, status)\<close>.
\<close>

definition call_cb ::
  "bool \<Rightarrow> nat option \<Rightarrow> callback_type \<Rightarrow> nat \<Rightarrow> int \<Rightarrow> failure + event list" where
  "call_cb unified f ty req status =
     (if unified then Inr [Callback Invoke_callback_wrap f ty req status]
      else case f of
             None \<Rightarrow> Inl Null_function_call
           | Some _ \<Rightarrow> Inr [Callback Direct_call f ty req status])"

text \<open>
  \<^verbatim>\<open>uv__stream_flush_write_queue\<close>: while the write queue is not empty, take its head,
  set the request's error and append it to the completed queue.
\<close>

function uv__stream_flush_write_queue :: "uv_stream_t \<Rightarrow> int \<Rightarrow> uv_stream_t" where
  "uv__stream_flush_write_queue stream err =
     (case write_queue stream of
        [] \<Rightarrow> stream
      | req # rest \<Rightarrow>
          uv__stream_flush_write_queue
            (stream\<lparr>write_queue := rest,
                    write_completed_queue :=
                      write_completed_queue stream @ [req\<lparr>error := err\<rparr>]\<rparr>)
            err)"
  by pat_completeness auto
termination
  by (relation "measure (\<lambda>(stream, err). length (write_queue stream))") auto

declare uv__stream_flush_write_queue.simps [simp del]

text \<open>
  \<^verbatim>\<open>uv__write_callbacks\<close>: pop each completed request, unregister it, take what is
  left of its buffers off \<^verbatim>\<open>write_queue_size\<close>, and call its callback, if it has one,
  with \<^verbatim>\<open>req->error\<close>.
\<close>

function uv__write_callbacks ::
  "bool \<Rightarrow> (size_t list \<Rightarrow> size_t) \<Rightarrow> uv_stream_t \<Rightarrow> failure + (uv_stream_t \<times> event list)" where
  "uv__write_callbacks unified uv__count_bufs stream =
     (case write_completed_queue stream of
        [] \<Rightarrow> Inr (stream, [])
      | req # rest \<Rightarrow>
          (case (if bufs req \<noteq> None
                 then uv__write_req_size uv__count_bufs (write_queue_size stream) req
                 else Inr 0) of
             Inl e \<Rightarrow> Inl e
           | Inr n \<Rightarrow>
               (case (if cb req \<noteq> None
                      then call_cb unified (cb req) UV_WRITE_CB (req_id req) (error req)
                      else Inr []) of
                  Inl e \<Rightarrow> Inl e
                | Inr called \<Rightarrow>
                    (case uv__write_callbacks unified uv__count_bufs
                            (stream\<lparr>write_completed_queue := rest,
                                    write_queue_size := write_queue_size stream - n\<rparr>) of
                       Inl e \<Rightarrow> Inl e
                     | Inr (stream', later) \<Rightarrow>
                         Inr (stream', Req_unregister (req_id req) # called @ later)))))"
  by pat_completeness auto
termination
  by (relation "measure (\<lambda>(unified, cnt, stream). length (write_completed_queue stream))") auto

declare uv__write_callbacks.simps [simp del]

text \<open>
  The two \<^verbatim>\<open>if (stream->..._req)\<close> blocks of \<^verbatim>\<open>uv__stream_destroy\<close>: unregister the
  pending request and call its callback with \<^verbatim>\<open>-ECANCELED\<close>. There is no test of
  \<^verbatim>\<open>cb\<close> against \<^verbatim>\<open>NULL\<close> here.
\<close>

definition cancel_req ::
  "bool \<Rightarrow> callback_type \<Rightarrow> uv_req_t option \<Rightarrow> failure + event list" where
  "cancel_req unified ty pending =
     (case pending of
        None \<Rightarrow> Inr []
      | Some req \<Rightarrow>
          (case call_cb unified (cb req) ty (req_id req) (- ECANCELED) of
             Inl e \<Rightarrow> Inl e
           | Inr called \<Rightarrow> Inr (Req_unregister (req_id req) # called)))"

definition uv__stream_destroy ::
  "bool \<Rightarrow> (size_t list \<Rightarrow> size_t) \<Rightarrow> uv_stream_t \<Rightarrow> failure + (uv_stream_t \<times> event list)" where
  "uv__stream_destroy unified uv__count_bufs stream =
     (if io_watcher_active stream
      then Inl (Assertion_failed ''!uv__io_active(&stream->io_watcher, UV__POLLIN | UV__POLLOUT)'')
      else if UV_CLOSED \<notin> flags stream
      then Inl (Assertion_failed ''stream->flags & UV_CLOSED'')
      else
        (case cancel_req unified UV_CONNECT_CB (connect_req stream) of
           Inl e \<Rightarrow> Inl e
         | Inr ev1 \<Rightarrow>
             (case uv__write_callbacks unified uv__count_bufs
                     (uv__stream_flush_write_queue (stream\<lparr>connect_req := None\<rparr>) (- ECANCELED)) of
                Inl e \<Rightarrow> Inl e
              | Inr (stream1, ev2) \<Rightarrow>
                  (case cancel_req unified UV_SHUTDOWN_CB (shutdown_req stream1) of
                     Inl e \<Rightarrow> Inl e
                   | Inr ev3 \<Rightarrow>
                       if write_queue_size stream1 \<noteq> 0
                       then Inl (Assertion_failed ''stream->write_queue_size == 0'')
                       else Inr (stream1\<lparr>shutdown_req := None\<rparr>, ev1 @ ev2 @ ev3)))))"

text \<open>
  What a write request still counts for in \<^verbatim>\<open>write_queue_size\<close>: nothing once its
  buffers are freed, else \<^verbatim>\<open>uv__count_bufs\<close> of the buffers from \<^verbatim>\<open>write_index\<close> on.
\<close>

definition pending_bytes :: "(size_t list \<Rightarrow> size_t) \<Rightarrow> uv_write_t \<Rightarrow> size_t" where
  "pending_bytes uv__count_bufs req =
     (case bufs req of None \<Rightarrow> 0 | Some bs \<Rightarrow> uv__count_bufs (drop (write_index req) bs))"

text \<open>\<^verbatim>\<open>write_index\<close> is within the request's \<^verbatim>\<open>nbufs\<close> buffers.\<close>

definition write_index_in_range :: "uv_write_t \<Rightarrow> bool" where
  "write_index_in_range req =
     (case bufs req of None \<Rightarrow> True | Some bs \<Rightarrow> write_index req \<le> length bs)"

text \<open>
  The bookkeeping \<^verbatim>\<open>uv_write2\<close>, \<^verbatim>\<open>uv__write\<close> and \<^verbatim>\<open>uv__write_callbacks\<close> keep up
  (see the comment in \<^verbatim>\<open>uv_write2\<close>): \<^verbatim>\<open>write_queue_size\<close> is the sum, without
  overflow, of what the requests of both queues still count for.
\<close>

definition write_queue_size_accounted :: "(size_t list \<Rightarrow> size_t) \<Rightarrow> uv_stream_t \<Rightarrow> bool" where
  "write_queue_size_accounted uv__count_bufs stream =
     (let reqs = write_completed_queue stream @ write_queue stream
      in unat (write_queue_size stream) = sum_list (map (\<lambda>req. unat (pending_bytes uv__count_bufs req)) reqs)
         \<and> list_all write_index_in_range reqs)"

text \<open>
  The events of one turn of the loop of \<^verbatim>\<open>uv__write_callbacks\<close> for a request that
  passes its assertions.
\<close>

definition write_done_events :: "bool \<Rightarrow> uv_write_t \<Rightarrow> event list" where
  "write_done_events unified req =
     Req_unregister (req_id req) #
     (if cb req = None then []
      else [Callback (if unified then Invoke_callback_wrap else Direct_call)
              (cb req) UV_WRITE_CB (req_id req) (error req)])"


text \<open>
  A closed stream with a pending connect, a pending shutdown, one write that failed
  earlier (\<^verbatim>\<open>-EPIPE\<close>) and two queued writes, the second without a callback;
  \<open>sum_bufs\<close> adds the buffer lengths as \<^verbatim>\<open>uv__count_bufs\<close> does.
\<close>

definition sum_bufs :: "size_t list \<Rightarrow> size_t" where
  "sum_bufs lens = sum_list lens"

definition closing_stream :: uv_stream_t where
  "closing_stream =
     \<lparr>flags = {UV_CLOSING, UV_CLOSED}, io_watcher_active = False,
      connect_req = Some \<lparr>req_id = 1, cb = Some 100\<rparr>,
      shutdown_req = Some \<lparr>req_id = 2, cb = Some 200\<rparr>,
      write_queue =
        [\<lparr>req_id = 4, cb = Some 300, error = 0, bufs = Some [5, 7], write_index = 1\<rparr>,
         \<lparr>req_id = 5, cb = None, error = 0, bufs = Some [3], write_index = 0\<rparr>],
      write_completed_queue =
        [\<lparr>req_id = 3, cb = Some 300, error = - 32, bufs = Some [4], write_index = 0\<rparr>],
      write_queue_size = 14\<rparr>"


section \<open>The scheduler's interface: deps/uv/src/scheduler.h\<close>

text \<open>
  The header declares the enumerations, the Schedule Point Details (SPD) structures and
  the dispatch table of a scheduler implementation. Enumerations are datatypes, in the
  order of their declaration. The structure declarations are also kept as data (member
  name, C type, and the use its comment gives), so that statements about the shape of
  a declaration can be made.
\<close>

datatype scheduler_type =
    SCHEDULER_TYPE_VANILLA
  | SCHEDULER_TYPE_CBTREE
  | SCHEDULER_TYPE_FUZZING_TIME
  | SCHEDULER_TYPE_TP_FREEDOM

datatype scheduler_mode = SCHEDULER_MODE_RECORD | SCHEDULER_MODE_REPLAY

datatype thread_type = THREAD_TYPE_LOOPER | THREAD_TYPE_THREADPOOL

datatype schedule_point =
    SCHEDULE_POINT_BEFORE_EXEC_CB
  | SCHEDULE_POINT_AFTER_EXEC_CB
  | SCHEDULE_POINT_LOOPER_BEFORE_EPOLL
  | SCHEDULE_POINT_LOOPER_AFTER_EPOLL
  | SCHEDULE_POINT_LOOPER_IOPOLL_BEFORE_HANDLING_EVENTS
  | SCHEDULE_POINT_LOOPER_GETTING_DONE
  | SCHEDULE_POINT_LOOPER_RUN_CLOSING
  | SCHEDULE_POINT_TIMER_READY
  | SCHEDULE_POINT_TIMER_RUN
  | SCHEDULE_POINT_TIMER_NEXT_TIMEOUT
  | SCHEDULE_POINT_TP_WANTS_WORK
  | SCHEDULE_POINT_TP_GETTING_WORK
  | SCHEDULE_POINT_TP_GOT_WORK
  | SCHEDULE_POINT_TP_BEFORE_PUT_DONE
  | SCHEDULE_POINT_TP_AFTER_PUT_DONE

text \<open>
  The members of \<^verbatim>\<open>enum schedule_point_e\<close> from \<^verbatim>\<open>SCHEDULE_POINT_MIN\<close> to
  \<^verbatim>\<open>SCHEDULE_POINT_MAX\<close>.
\<close>

definition schedule_points :: "schedule_point list" where
  "schedule_points =
     [SCHEDULE_POINT_BEFORE_EXEC_CB, SCHEDULE_POINT_AFTER_EXEC_CB,
      SCHEDULE_POINT_LOOPER_BEFORE_EPOLL, SCHEDULE_POINT_LOOPER_AFTER_EPOLL,
      SCHEDULE_POINT_LOOPER_IOPOLL_BEFORE_HANDLING_EVENTS,
      SCHEDULE_POINT_LOOPER_GETTING_DONE, SCHEDULE_POINT_LOOPER_RUN_CLOSING,
      SCHEDULE_POINT_TIMER_READY, SCHEDULE_POINT_TIMER_RUN, SCHEDULE_POINT_TIMER_NEXT_TIMEOUT,
      SCHEDULE_POINT_TP_WANTS_WORK, SCHEDULE_POINT_TP_GETTING_WORK, SCHEDULE_POINT_TP_GOT_WORK,
      SCHEDULE_POINT_TP_BEFORE_PUT_DONE, SCHEDULE_POINT_TP_AFTER_PUT_DONE]"

subsection \<open>Schedule Point Details\<close>

text \<open>The eleven \<^verbatim>\<open>struct spd_..._s\<close> the header declares.\<close>

datatype spd_struct =
    spd_before_exec_cb_s
  | spd_before_epoll_s
  | spd_after_epoll_s
  | spd_iopoll_before_handling_events_s
  | spd_wants_work_s
  | spd_getting_work_s
  | spd_got_work_s
  | spd_looper_run_closing_s
  | spd_timer_ready_s
  | spd_timer_run_s
  | spd_timer_next_timeout_s

text \<open>
  The fifteen type names \<^verbatim>\<open>spd_..._t\<close>; each has its own \<^verbatim>\<open>_init\<close> and
  \<^verbatim>\<open>_is_valid\<close> function.
\<close>

datatype spd_typedef =
    spd_before_exec_cb_t
  | spd_after_exec_cb_t
  | spd_before_epoll_t
  | spd_after_epoll_t
  | spd_iopoll_before_handling_events_t
  | spd_wants_work_t
  | spd_getting_work_t
  | spd_got_work_t
  | spd_before_put_done_t
  | spd_after_put_done_t
  | spd_getting_done_t
  | spd_looper_run_closing_t
  | spd_timer_ready_t
  | spd_timer_run_t
  | spd_timer_next_timeout_t

text \<open>
  The \<^verbatim>\<open>typedef\<close> lines, resolved to the structure a name stands for:
  \<^verbatim>\<open>typedef struct spd_X_s spd_X_t;\<close> for eleven names, and the four aliases
  \<^verbatim>\<open>typedef spd_before_exec_cb_t spd_after_exec_cb_t;\<close>,
  \<^verbatim>\<open>typedef spd_got_work_t spd_before_put_done_t;\<close>,
  \<^verbatim>\<open>typedef spd_got_work_t spd_after_put_done_t;\<close> and
  \<^verbatim>\<open>typedef spd_getting_work_t spd_getting_done_t;\<close>, each of which names the
  structure of the type it repeats.
\<close>

fun typedef_struct :: "spd_typedef \<Rightarrow> spd_struct" where
  "typedef_struct spd_before_exec_cb_t = spd_before_exec_cb_s"
| "typedef_struct spd_after_exec_cb_t = spd_before_exec_cb_s"
| "typedef_struct spd_before_epoll_t = spd_before_epoll_s"
| "typedef_struct spd_after_epoll_t = spd_after_epoll_s"
| "typedef_struct spd_iopoll_before_handling_events_t = spd_iopoll_before_handling_events_s"
| "typedef_struct spd_wants_work_t = spd_wants_work_s"
| "typedef_struct spd_getting_work_t = spd_getting_work_s"
| "typedef_struct spd_got_work_t = spd_got_work_s"
| "typedef_struct spd_before_put_done_t = spd_got_work_s"
| "typedef_struct spd_after_put_done_t = spd_got_work_s"
| "typedef_struct spd_getting_done_t = spd_getting_work_s"
| "typedef_struct spd_looper_run_closing_t = spd_looper_run_closing_s"
| "typedef_struct spd_timer_ready_t = spd_timer_ready_s"
| "typedef_struct spd_timer_run_t = spd_timer_run_s"
| "typedef_struct spd_timer_next_timeout_t = spd_timer_next_timeout_s"

text \<open>
  "There's an SPD_X_t for each schedule_point_t. Use them together." The header pairs a
  schedule point with the type of its details by name; the table lists the pairs.
\<close>

definition spd_of_point :: "(schedule_point \<times> spd_typedef) list" where
  "spd_of_point =
     [(SCHEDULE_POINT_BEFORE_EXEC_CB, spd_before_exec_cb_t),
      (SCHEDULE_POINT_AFTER_EXEC_CB, spd_after_exec_cb_t),
      (SCHEDULE_POINT_LOOPER_BEFORE_EPOLL, spd_before_epoll_t),
      (SCHEDULE_POINT_LOOPER_AFTER_EPOLL, spd_after_epoll_t),
      (SCHEDULE_POINT_LOOPER_IOPOLL_BEFORE_HANDLING_EVENTS, spd_iopoll_before_handling_events_t),
      (SCHEDULE_POINT_LOOPER_GETTING_DONE, spd_getting_done_t),
      (SCHEDULE_POINT_LOOPER_RUN_CLOSING, spd_looper_run_closing_t),
      (SCHEDULE_POINT_TIMER_READY, spd_timer_ready_t),
      (SCHEDULE_POINT_TIMER_RUN, spd_timer_run_t),
      (SCHEDULE_POINT_TIMER_NEXT_TIMEOUT, spd_timer_next_timeout_t),
      (SCHEDULE_POINT_TP_WANTS_WORK, spd_wants_work_t),
      (SCHEDULE_POINT_TP_GETTING_WORK, spd_getting_work_t),
      (SCHEDULE_POINT_TP_GOT_WORK, spd_got_work_t),
      (SCHEDULE_POINT_TP_BEFORE_PUT_DONE, spd_before_put_done_t),
      (SCHEDULE_POINT_TP_AFTER_PUT_DONE, spd_after_put_done_t)]"

text \<open>The structure that carries the details of a schedule point, if the table has one.\<close>

definition spd_struct_of_point :: "schedule_point \<Rightarrow> spd_struct option" where
  "spd_struct_of_point point = map_option typedef_struct (map_of spd_of_point point)"

text \<open>C types, as far as the declarations of the header need them.\<close>

datatype c_type =
    C_void
  | C_char
  | C_int
  | C_unsigned
  | C_size_t
  | C_uint64_t
  | C_named string
  | C_struct string
  | C_enum string
  | C_ptr c_type
  | C_fun_ptr c_type "c_type list"

text \<open>What the comment beside a member says of its use.\<close>

datatype member_use = Magic | Input | Output | Input_output | Not_used | Unmarked

type_synonym member = "string \<times> c_type \<times> member_use"

fun spd_members :: "spd_struct \<Rightarrow> member list" where
  "spd_members spd_before_exec_cb_s =
     [(''magic'', C_int, Magic),
      (''cb_type'', C_enum ''callback_type'', Unmarked),
      (''lcbn'', C_ptr (C_named ''lcbn_t''), Not_used)]"
| "spd_members spd_before_epoll_s = [(''magic'', C_int, Magic)]"
| "spd_members spd_after_epoll_s = [(''magic'', C_int, Magic)]"
| "spd_members spd_iopoll_before_handling_events_s =
     [(''magic'', C_int, Magic),
      (''shuffleable_items'', C_named ''shuffleable_items_t'', Input_output)]"
| "spd_members spd_wants_work_s =
     [(''magic'', C_int, Magic),
      (''start_time'', C_struct ''timespec'', Input),
      (''wq'', C_ptr (C_named ''QUEUE''), Input),
      (''should_get_work'', C_int, Output)]"
| "spd_members spd_getting_work_s =
     [(''magic'', C_int, Magic),
      (''wq'', C_ptr (C_named ''QUEUE''), Input),
      (''index'', C_int, Output)]"
| "spd_members spd_got_work_s =
     [(''magic'', C_int, Magic),
      (''work_item'', C_ptr (C_struct ''uv__work''), Unmarked),
      (''work_item_num'', C_int, Unmarked)]"
| "spd_members spd_looper_run_closing_s =
     [(''magic'', C_int, Magic),
      (''defer'', C_int, Output)]"
| "spd_members spd_timer_ready_s =
     [(''magic'', C_int, Magic),
      (''timer'', C_ptr (C_named ''uv_timer_t''), Input),
      (''now'', C_uint64_t, Input),
      (''ready'', C_int, Output)]"
| "spd_members spd_timer_run_s =
     [(''magic'', C_int, Magic),
      (''shuffleable_items'', C_named ''shuffleable_items_t'', Input_output)]"
| "spd_members spd_timer_next_timeout_s =
     [(''magic'', C_int, Magic),
      (''timer'', C_ptr (C_named ''uv_timer_t''), Input),
      (''now'', C_uint64_t, Input),
      (''time_until_timer'', C_uint64_t, Output)]"

text \<open>The members of a schedule point's details, through the table and the typedefs.\<close>

definition spd_members_of_point :: "schedule_point \<Rightarrow> member list option" where
  "spd_members_of_point point = map_option spd_members (spd_struct_of_point point)"

subsection \<open>The dispatch table of a scheduler implementation\<close>

text \<open>
  \<^verbatim>\<open>struct schedulerImpl_s\<close> as declared: each member with the type its
  \<^verbatim>\<open>schedulerImpl_...\<close> typedef gives.
\<close>

definition schedulerImpl_s_members :: "(string \<times> c_type) list" where
  "schedulerImpl_s_members =
     [(''register_lcbn'', C_fun_ptr C_void [C_ptr (C_named ''lcbn_t'')]),
      (''next_lcbn_type'', C_fun_ptr (C_enum ''callback_type'') []),
      (''thread_yield'', C_fun_ptr C_void [C_named ''schedule_point_t'', C_ptr C_void]),
      (''emit'', C_fun_ptr C_void [C_ptr C_char]),
      (''lcbns_remaining'', C_fun_ptr C_int []),
      (''schedule_has_diverged'', C_fun_ptr C_int [])]"

fun is_function_pointer :: "c_type \<Rightarrow> bool" where
  "is_function_pointer (C_fun_ptr ret params) = True"
| "is_function_pointer ty = False"

text \<open>
  The same table as a record of functions. A C function that returns \<open>R\<close> and works on
  the world \<open>'w\<close> (the scheduler's variables, the implementation's private state, the
  file system) is a function to \<open>failure + R \<times> 'w\<close>: it ends the process (\<open>Inl\<close>) or
  returns a value and the new world; \<^verbatim>\<open>void\<close> is \<open>unit\<close>. \<open>'lcbn\<close> stands for \<^verbatim>\<open>lcbn_t\<close>, declared in
  logical-callback-node.h, and \<open>'spd\<close> for what \<^verbatim>\<open>void *schedule_point_details\<close> points
  to, which the call may change.
\<close>

record ('lcbn, 'spd, 'w) schedulerImpl_s =
  register_lcbn :: "'lcbn \<Rightarrow> 'w \<Rightarrow> failure + unit \<times> 'w"
  next_lcbn_type :: "'w \<Rightarrow> failure + callback_type \<times> 'w"
  thread_yield :: "schedule_point \<Rightarrow> 'spd \<Rightarrow> 'w \<Rightarrow> failure + unit \<times> 'spd \<times> 'w"
  emit :: "string \<Rightarrow> 'w \<Rightarrow> failure + unit \<times> 'w"
  lcbns_remaining :: "'w \<Rightarrow> failure + int \<times> 'w"
  schedule_has_diverged :: "'w \<Rightarrow> failure + int \<times> 'w"

subsection \<open>The public scheduler methods\<close>


section \<open>The public scheduler and the callback-tree implementation\<close>

text \<open>
  scheduler.c and the scheduler implementations are not among the source files. What
  follows is written from the specification and from the comments of scheduler.h; the
  types of the functions are those the header declares. The reentrant lock and the
  thread registry are left out: the model follows one thread's calls.
\<close>

subsection \<open>Logical callback nodes and the details of a yield\<close>

text \<open>
  Modelled from the spec: the LCBN of logical-callback-node.h. "The identity of one
  callback occurrence: its kind, ..., its parent in the causation tree"; "compared during
  replay by kind + structural position in the causation tree"; divergence compares "the
  set of children registered during the callback (their kinds and order)". \<open>tree_path\<close>
  is the position (birth order under each ancestor), \<open>children\<close> the kinds of the
  children in order.
\<close>

record lcbn =
  cb_type :: callback_type
  tree_path :: "nat list"
  children :: "callback_type list"

text \<open>
  Modelled from the spec: what \<^verbatim>\<open>schedule_point_details\<close> points to, as far as this
  model reads it. For BEFORE_EXEC_CB and AFTER_EXEC_CB the spec gives the payload
  "{callback_kind, logical_cb_node?}" (the header marks the \<^verbatim>\<open>lcbn\<close> member "NOT USED";
  how scheduler.c then learns the running LCBN is not in the sources), so
  \<open>Spd_exec_cb\<close> carries the LCBN of the callback; \<open>Spd_other\<close> stands for the details
  of every other type. \<open>spd_typedef_of\<close> is the type the details were initialised as.
\<close>

datatype spd = Spd_exec_cb spd_typedef lcbn | Spd_other spd_typedef

fun spd_typedef_of :: "spd \<Rightarrow> spd_typedef" where
  "spd_typedef_of (Spd_exec_cb ty l) = ty"
| "spd_typedef_of (Spd_other ty) = ty"

text \<open>
  Modelled from the spec: \<^verbatim>\<open>schedule_point_looks_valid\<close> of scheduler.c, "Returns
  non-zero if the {point, pointDetails} combination is valid": the details are of the
  type paired with the point, and carry a callback exactly at the two points that
  bracket one.
\<close>

definition schedule_point_looks_valid :: "schedule_point \<Rightarrow> spd \<Rightarrow> bool" where
  "schedule_point_looks_valid point details =
     (map_of spd_of_point point = Some (spd_typedef_of details)
      \<and> (case details of
            Spd_exec_cb ty l \<Rightarrow> ty = spd_before_exec_cb_t \<or> ty = spd_after_exec_cb_t
          | Spd_other ty \<Rightarrow> ty \<noteq> spd_before_exec_cb_t \<and> ty \<noteq> spd_after_exec_cb_t))"

subsection \<open>The public scheduler\<close>

text \<open>
  Modelled from the spec: the variables of the public scheduler in scheduler.c. \<open>mode\<close>
  is what \<^verbatim>\<open>scheduler_get_scheduler_mode\<close> returns ("The scheduler mode is not a
  constant. We may shift from REPLAY to RECORD mode"), \<open>args_mode\<close> the mode
  \<^verbatim>\<open>scheduler_init\<close> was called with, \<open>n_executed\<close> the counter behind
  \<^verbatim>\<open>scheduler_n_executed\<close>. An implementation's private state extends the record.
\<close>

record scheduler =
  mode :: scheduler_mode
  args_mode :: scheduler_mode
  schedule_file :: string
  n_executed :: nat

type_synonym 'a impl = "(lcbn, spd, 'a scheduler_scheme) schedulerImpl_s"

text \<open>
  Modelled from the spec: \<^verbatim>\<open>scheduler_thread_yield\<close>. "Validates (point, spp), ...,
  dispatches to backend"; a wrong pair is an invariant violation, which aborts.
  \<^verbatim>\<open>scheduler_n_executed\<close> "is measured by the number of times scheduler_thread_yield
  is called at schedule point SCHEDULE_POINT_AFTER_EXEC_CB".
\<close>

definition scheduler_thread_yield ::
  "'a impl \<Rightarrow> schedule_point \<Rightarrow> spd \<Rightarrow> 'a scheduler_scheme
     \<Rightarrow> failure + unit \<times> spd \<times> 'a scheduler_scheme" where
  "scheduler_thread_yield impl point details s =
     (if \<not> schedule_point_looks_valid point details
      then Inl (Assertion_failed ''schedule_point_looks_valid(point, schedule_point_details)'')
      else
        (case thread_yield impl point details s of
           Inl e \<Rightarrow> Inl e
         | Inr (u, details', s') \<Rightarrow>
             Inr ((), details',
                  if point = SCHEDULE_POINT_AFTER_EXEC_CB
                  then s'\<lparr>n_executed := n_executed s' + 1\<rparr>
                  else s')))"

text \<open>Modelled from the spec: the accessors and the calls that forward to the implementation.\<close>

definition scheduler_n_executed :: "'a scheduler_scheme \<Rightarrow> nat" where
  "scheduler_n_executed s = n_executed s"

definition scheduler_get_scheduler_mode :: "'a scheduler_scheme \<Rightarrow> scheduler_mode" where
  "scheduler_get_scheduler_mode s = mode s"

definition scheduler_next_lcbn_type ::
  "'a impl \<Rightarrow> 'a scheduler_scheme \<Rightarrow> failure + callback_type \<times> 'a scheduler_scheme" where
  "scheduler_next_lcbn_type impl s = next_lcbn_type impl s"

text \<open>
  Modelled from the spec: the file \<^verbatim>\<open>scheduler_emit\<close> writes. "RECORD mode: duh.
  REPLAY mode: we don't want to overwrite the input schedule, so we emit to
  sprintf("%s-replay", schedule_file)"; after a divergence "the partial replay plus
  continued recording is emitted to <file>-replay", so the mode that counts is the one
  the run was started in.
\<close>

definition scheduler_output_file :: "'a scheduler_scheme \<Rightarrow> string" where
  "scheduler_output_file s =
     (case args_mode s of
        SCHEDULER_MODE_RECORD \<Rightarrow> schedule_file s
      | SCHEDULER_MODE_REPLAY \<Rightarrow> schedule_file s @ ''-replay'')"

text \<open>
  Modelled from the spec: the body of \<^verbatim>\<open>scheduler_emit\<close>, which hands the file name
  to the implementation's \<^verbatim>\<open>emit\<close>. Its type is the header's:
  \<^verbatim>\<open>void scheduler_emit (void)\<close> calls a \<^verbatim>\<open>void (*schedulerImpl_emit) (char *output_file)\<close>.
\<close>

definition scheduler_emit ::
  "'a impl \<Rightarrow> 'a scheduler_scheme \<Rightarrow> failure + unit \<times> 'a scheduler_scheme" where
  "scheduler_emit impl s = emit impl (scheduler_output_file s) s"

subsection \<open>The schedule log\<close>

text \<open>
  Modelled from the spec: the schedule log. "An ordered sequence S[0..n) of records;
  each record is either an LCBN execution event (the AFTER_EXEC_CB landmark) or a
  decision record at a non-callback schedule point." A decision record is kept by its
  schedule point; the outputs stored with it are not part of this model.
\<close>

datatype log_record = Executed lcbn | Decided schedule_point

fun is_decision :: "log_record \<Rightarrow> bool" where
  "is_decision (Decided point) = True"
| "is_decision (Executed l) = False"

text \<open>
  Modelled from the spec: the LCBN execution events of a log, in order. "The order of
  their AFTER_EXEC_CB observations in the log ... is the definition of the schedule."
\<close>

fun lcbns_of :: "log_record list \<Rightarrow> lcbn list" where
  "lcbns_of [] = []"
| "lcbns_of (Executed l # records) = l # lcbns_of records"
| "lcbns_of (Decided point # records) = lcbns_of records"

text \<open>
  Modelled from the spec: the record a yield leaves in the log: the callback at
  AFTER_EXEC_CB, the decision at a non-callback point, nothing at BEFORE_EXEC_CB.
\<close>

definition yield_record :: "schedule_point \<Rightarrow> spd \<Rightarrow> log_record list" where
  "yield_record point details =
     (case details of
        Spd_exec_cb ty l \<Rightarrow> if point = SCHEDULE_POINT_AFTER_EXEC_CB then [Executed l] else []
      | Spd_other ty \<Rightarrow> [Decided point])"

subsection \<open>The callback-tree implementation\<close>

text \<open>
  Modelled from the spec: the private state of the CBTree backend (scheduler_cbtree.c).
  \<open>schedule_log\<close> is the input schedule loaded in REPLAY mode, \<open>unconsumed\<close> the
  records of it that the replay has not reached yet, \<open>recorded\<close> the log of this run,
  \<open>registered\<close> the LCBNs given to \<^verbatim>\<open>register_lcbn\<close>. \<open>stalled\<close> counts the yields
  made at non-callback points while the schedule expects a callback next, and
  \<open>divergence_timeout\<close> is how many of them are tolerated ("a timeout mechanism may
  flip to RECORD: if the replayed loop repeatedly calls into the scheduler without ever
  reaching the next scheduled BEFORE_EXEC_CB"). \<open>files\<close> maps a file name to the log
  stored there and \<open>io_error\<close> says that writing fails.
\<close>

record cbtree = scheduler +
  schedule_log :: "log_record list"
  unconsumed :: "log_record list"
  recorded :: "log_record list"
  registered :: "lcbn list"
  diverged :: bool
  min_n_executed_before_divergence_allowed :: nat
  divergence_timeout :: nat
  stalled :: nat
  files :: "string \<rightharpoonup> log_record list"
  io_error :: bool

text \<open>
  The schedule in the sense of the order of callbacks: the LCBNs of the input schedule,
  those of them not yet executed, and the prefix of the input schedule that the replay
  has consumed.
\<close>

definition schedule :: "cbtree \<Rightarrow> lcbn list" where
  "schedule s = lcbns_of (schedule_log s)"

definition remaining :: "cbtree \<Rightarrow> lcbn list" where
  "remaining s = lcbns_of (unconsumed s)"

definition consumed :: "cbtree \<Rightarrow> log_record list" where
  "consumed s = take (length (schedule_log s) - length (unconsumed s)) (schedule_log s)"

text \<open>
  Modelled from the spec: \<^verbatim>\<open>scheduler_init\<close> for the type SCHEDULER_TYPE_CBTREE, with
  the mode, the schedule file and, as \<^verbatim>\<open>args\<close>, the divergence threshold and the
  timeout; \<open>fs\<close> and \<open>io_err\<close> are the disk it starts on. "Selects backend, loads file
  if replaying"; a missing schedule file in REPLAY is a fatal configuration error.
\<close>

definition scheduler_init ::
  "scheduler_mode \<Rightarrow> string \<Rightarrow> nat \<times> nat \<Rightarrow> (string \<rightharpoonup> log_record list) \<Rightarrow> bool
     \<Rightarrow> failure + cbtree" where
  "scheduler_init m file args fs io_err =
     (let loaded = (case m of SCHEDULER_MODE_RECORD \<Rightarrow> Some [] | SCHEDULER_MODE_REPLAY \<Rightarrow> fs file)
      in case loaded of
           None \<Rightarrow> Inl (Assertion_failed ''schedule file'')
         | Some log \<Rightarrow>
             Inr \<lparr>mode = m, args_mode = m, schedule_file = file, n_executed = 0,
                  schedule_log = log, unconsumed = log, recorded = [], registered = [],
                  diverged = False,
                  min_n_executed_before_divergence_allowed = fst args,
                  divergence_timeout = snd args, stalled = 0,
                  files = fs, io_error = io_err\<rparr>)"

text \<open>
  Modelled from the spec: the match of a callback about to run with the next LCBN of
  the schedule, "by kind and structural position".
\<close>

definition lcbn_matches :: "lcbn \<Rightarrow> lcbn \<Rightarrow> bool" where
  "lcbn_matches l expected = (cb_type l = cb_type expected \<and> tree_path l = tree_path expected)"

text \<open>
  Modelled from the spec: when the CBTree backend detects divergence, in REPLAY mode
  only.
  \<^item> At BEFORE_EXEC_CB, "the actual running LCBN ... disagrees with the schedule's
    expected next LCBN"; a callback with nothing left in the schedule disagrees with it.
  \<^item> At AFTER_EXEC_CB (the LCBN check), "any mismatch in count, order, or kind" of the
    children.
  \<^item> At a non-callback point (the marker check), the point is not the one of the
    decision record that the schedule expects next.
  \<^item> At a non-callback point while the schedule expects a callback next (the timeout),
    the loop has already stalled \<open>divergence_timeout\<close> times.
\<close>

definition divergence_detected :: "schedule_point \<Rightarrow> spd \<Rightarrow> cbtree \<Rightarrow> bool" where
  "divergence_detected point details s =
     (mode s = SCHEDULER_MODE_REPLAY \<and>
      (case details of
         Spd_exec_cb ty l \<Rightarrow>
           (case remaining s of
              [] \<Rightarrow> point = SCHEDULE_POINT_BEFORE_EXEC_CB \<or> point = SCHEDULE_POINT_AFTER_EXEC_CB
            | expected # rest \<Rightarrow>
                (point = SCHEDULE_POINT_BEFORE_EXEC_CB \<and> \<not> lcbn_matches l expected)
                \<or> (point = SCHEDULE_POINT_AFTER_EXEC_CB \<and> children l \<noteq> children expected))
       | Spd_other ty \<Rightarrow>
           (case unconsumed s of
              [] \<Rightarrow> False
            | Decided expected # rest \<Rightarrow> point \<noteq> expected
            | Executed expected # rest \<Rightarrow> divergence_timeout s \<le> stalled s)))"

text \<open>
  Modelled from the spec: the policy on divergence. "A bounded prefix of the schedule
  (min_n_executed_before_divergence_allowed) must be consumed before divergence is
  tolerated. Below that threshold, divergence is fatal. At or above, divergence silently
  flips the mode to RECORD from that point on."
\<close>

definition diverge :: "cbtree \<Rightarrow> failure + cbtree" where
  "diverge s =
     (if n_executed s < min_n_executed_before_divergence_allowed s
      then Inl Divergence_fatal
      else Inr (s\<lparr>mode := SCHEDULER_MODE_RECORD, diverged := True\<rparr>))"

text \<open>
  Modelled from the spec: how a yield moves the replay on. A finished callback
  consumes the schedule up to and with its LCBN; a callback about to run ends a stall;
  a yield at a non-callback point consumes the decision record of that point if it is
  next, and counts as a stall if a callback is next.
\<close>

definition replay_step :: "schedule_point \<Rightarrow> spd \<Rightarrow> cbtree \<Rightarrow> cbtree" where
  "replay_step point details s =
     (case details of
        Spd_exec_cb ty l \<Rightarrow>
          if point = SCHEDULE_POINT_AFTER_EXEC_CB
          then s\<lparr>unconsumed := tl (dropWhile is_decision (unconsumed s))\<rparr>
          else if point = SCHEDULE_POINT_BEFORE_EXEC_CB
          then s\<lparr>stalled := 0\<rparr>
          else s
      | Spd_other ty \<Rightarrow>
          (case unconsumed s of
             [] \<Rightarrow> s
           | Decided expected # rest \<Rightarrow>
               if point = expected then s\<lparr>unconsumed := rest\<rparr> else s
           | Executed expected # rest \<Rightarrow> s\<lparr>stalled := stalled s + 1\<rparr>))"

text \<open>
  Modelled from the spec: \<^verbatim>\<open>thread_yield\<close> of the CBTree backend. The yield is logged,
  in REPLAY mode the replay moves on, and a detected divergence is handed to the
  policy. The outputs the backend writes into the details are not part of this model:
  the details come back as they went in.
\<close>

definition cbtree_thread_yield ::
  "schedule_point \<Rightarrow> spd \<Rightarrow> cbtree \<Rightarrow> failure + unit \<times> spd \<times> cbtree" where
  "cbtree_thread_yield point details s =
     (let logged = s\<lparr>recorded := recorded s @ yield_record point details\<rparr>;
          finished = (if mode s = SCHEDULER_MODE_REPLAY
                      then replay_step point details logged else logged)
      in if divergence_detected point details s
         then (case diverge finished of
                 Inl e \<Rightarrow> Inl e
               | Inr s' \<Rightarrow> Inr ((), details, s'))
         else Inr ((), details, finished))"

text \<open>
  Modelled from the spec: \<^verbatim>\<open>next_lcbn_type\<close>, "REPLAY mode. Returns the callback_type
  of the next scheduled LCBN. If scheduler has diverged, returns CALLBACK_TYPE_ANY";
  the wildcard also when recording or when nothing is left.
\<close>

definition cbtree_next_lcbn_type :: "cbtree \<Rightarrow> failure + callback_type \<times> cbtree" where
  "cbtree_next_lcbn_type s =
     Inr (if diverged s \<or> mode s = SCHEDULER_MODE_RECORD then CALLBACK_TYPE_ANY
          else (case remaining s of
                  [] \<Rightarrow> CALLBACK_TYPE_ANY
                | expected # rest \<Rightarrow> cb_type expected),
          s)"

text \<open>
  Modelled from the spec: the other four slots. \<^verbatim>\<open>emit\<close> "writes the log" to the file
  it is given and, writing to a temporary file that is renamed at the end, leaves no
  partial file when writing fails; \<^verbatim>\<open>lcbns_remaining\<close> counts the LCBNs of the input
  schedule not executed yet and "in RECORD mode, must return non-zero" (1 here).
\<close>

definition cbtree_emit :: "string \<Rightarrow> cbtree \<Rightarrow> failure + unit \<times> cbtree" where
  "cbtree_emit output_file s =
     Inr ((), if io_error s then s else s\<lparr>files := (files s)(output_file \<mapsto> recorded s)\<rparr>)"

definition cbtree_register_lcbn :: "lcbn \<Rightarrow> cbtree \<Rightarrow> failure + unit \<times> cbtree" where
  "cbtree_register_lcbn l s = Inr ((), s\<lparr>registered := registered s @ [l]\<rparr>)"

definition cbtree_lcbns_remaining :: "cbtree \<Rightarrow> failure + int \<times> cbtree" where
  "cbtree_lcbns_remaining s =
     Inr (if mode s = SCHEDULER_MODE_RECORD then 1 else int (length (remaining s)), s)"

definition cbtree_schedule_has_diverged :: "cbtree \<Rightarrow> failure + int \<times> cbtree" where
  "cbtree_schedule_has_diverged s = Inr (if diverged s then 1 else 0, s)"

definition cbtree_impl :: "(lcbn, spd, cbtree) schedulerImpl_s" where
  "cbtree_impl =
     \<lparr>register_lcbn = cbtree_register_lcbn,
      next_lcbn_type = cbtree_next_lcbn_type,
      thread_yield = cbtree_thread_yield,
      emit = cbtree_emit,
      lcbns_remaining = cbtree_lcbns_remaining,
      schedule_has_diverged = cbtree_schedule_has_diverged\<rparr>"

text \<open>
  A run of one thread: the yields it makes, in order, each with its details. The run
  stops at the first abort.
\<close>

fun run_yields :: "(schedule_point \<times> spd) list \<Rightarrow> cbtree \<Rightarrow> failure + cbtree" where
  "run_yields [] s = Inr s"
| "run_yields ((point, details) # later) s =
     (case scheduler_thread_yield cbtree_impl point details s of
        Inl e \<Rightarrow> Inl e
      | Inr (u, details', s') \<Rightarrow> run_yields later s')"

subsection \<open>Runs of the callback-tree implementation\<close>

text \<open>
  A state that is still replaying: in REPLAY mode, no divergence declared, the consumed
  prefix followed by the unconsumed records is the input schedule, and \<open>n_executed\<close>
  is the number of LCBNs in the consumed prefix.
\<close>

definition replaying :: "cbtree \<Rightarrow> bool" where
  "replaying s =
     (mode s = SCHEDULER_MODE_REPLAY \<and> \<not> diverged s
      \<and> consumed s @ unconsumed s = schedule_log s
      \<and> n_executed s = length (lcbns_of (consumed s)))"

text \<open>The number of yields at SCHEDULE_POINT_AFTER_EXEC_CB among the yields of a run.\<close>

definition after_exec_cb_yields :: "(schedule_point \<times> spd) list \<Rightarrow> nat" where
  "after_exec_cb_yields ys =
     length (filter (\<lambda>(point, details). point = SCHEDULE_POINT_AFTER_EXEC_CB) ys)"

text \<open>The records that the yields of a run leave in the log, in order.\<close>

definition yield_records :: "(schedule_point \<times> spd) list \<Rightarrow> log_record list" where
  "yield_records ys = concat (map (\<lambda>(point, details). yield_record point details) ys)"


subsection \<open>An example run\<close>

text \<open>
  A schedule of three callbacks, each after the two yields that bracket a poll, stored
  as schedule.txt, and a run that replays the first two callbacks.
  \<open>example_start n\<close> is the scheduler initialised for that replay with threshold \<open>n\<close>
  (and a timeout of 3), \<open>example_replayed n\<close> the state after the run,
  \<open>example_unexpected\<close> the details of a callback the schedule does not expect next,
  \<open>example_recorded_later\<close> two yields made after it, and \<open>emit_failing\<close> the replayed
  state on a disk that cannot be written.
\<close>

definition example_connect :: lcbn where
  "example_connect = \<lparr>cb_type = UV_CONNECT_CB, tree_path = [0], children = [UV_WRITE_CB]\<rparr>"

definition example_write :: lcbn where
  "example_write = \<lparr>cb_type = UV_WRITE_CB, tree_path = [0, 0], children = []\<rparr>"

definition example_shutdown :: lcbn where
  "example_shutdown = \<lparr>cb_type = UV_SHUTDOWN_CB, tree_path = [1], children = []\<rparr>"

definition example_schedule :: "log_record list" where
  "example_schedule =
     [Decided SCHEDULE_POINT_LOOPER_BEFORE_EPOLL, Decided SCHEDULE_POINT_LOOPER_AFTER_EPOLL,
      Executed example_connect,
      Decided SCHEDULE_POINT_LOOPER_BEFORE_EPOLL, Decided SCHEDULE_POINT_LOOPER_AFTER_EPOLL,
      Executed example_write,
      Decided SCHEDULE_POINT_LOOPER_BEFORE_EPOLL, Decided SCHEDULE_POINT_LOOPER_AFTER_EPOLL,
      Executed example_shutdown]"

definition example_files :: "string \<rightharpoonup> log_record list" where
  "example_files = [''schedule.txt'' \<mapsto> example_schedule]"

definition example_yields :: "(schedule_point \<times> spd) list" where
  "example_yields =
     [(SCHEDULE_POINT_LOOPER_BEFORE_EPOLL, Spd_other spd_before_epoll_t),
      (SCHEDULE_POINT_LOOPER_AFTER_EPOLL, Spd_other spd_after_epoll_t),
      (SCHEDULE_POINT_BEFORE_EXEC_CB,
         Spd_exec_cb spd_before_exec_cb_t (example_connect\<lparr>children := []\<rparr>)),
      (SCHEDULE_POINT_AFTER_EXEC_CB, Spd_exec_cb spd_after_exec_cb_t example_connect),
      (SCHEDULE_POINT_LOOPER_BEFORE_EPOLL, Spd_other spd_before_epoll_t),
      (SCHEDULE_POINT_LOOPER_AFTER_EPOLL, Spd_other spd_after_epoll_t),
      (SCHEDULE_POINT_BEFORE_EXEC_CB, Spd_exec_cb spd_before_exec_cb_t example_write),
      (SCHEDULE_POINT_AFTER_EXEC_CB, Spd_exec_cb spd_after_exec_cb_t example_write)]"

definition example_unexpected :: spd where
  "example_unexpected =
     Spd_exec_cb spd_before_exec_cb_t \<lparr>cb_type = UV_READ_CB, tree_path = [2], children = []\<rparr>"

definition example_recorded_later :: "(schedule_point \<times> spd) list" where
  "example_recorded_later =
     [(SCHEDULE_POINT_AFTER_EXEC_CB,
         Spd_exec_cb spd_after_exec_cb_t
           \<lparr>cb_type = UV_READ_CB, tree_path = [2], children = []\<rparr>),
      (SCHEDULE_POINT_LOOPER_BEFORE_EPOLL, Spd_other spd_before_epoll_t)]"

definition example_start :: "nat \<Rightarrow> cbtree" where
  "example_start min_n =
     \<lparr>mode = SCHEDULER_MODE_REPLAY, args_mode = SCHEDULER_MODE_REPLAY,
      schedule_file = ''schedule.txt'', n_executed = 0,
      schedule_log = example_schedule, unconsumed = example_schedule, recorded = [],
      registered = [], diverged = False,
      min_n_executed_before_divergence_allowed = min_n,
      divergence_timeout = 3, stalled = 0,
      files = example_files, io_error = False\<rparr>"

definition example_replayed :: "nat \<Rightarrow> cbtree" where
  "example_replayed min_n =
     (example_start min_n)
       \<lparr>n_executed := 2,
        unconsumed := drop 6 example_schedule,
        recorded := take 6 example_schedule\<rparr>"


section \<open>Properties of the stream teardown\<close>

lemma flush_all:
  "uv__stream_flush_write_queue stream err =
     stream\<lparr>write_queue := [],
            write_completed_queue :=
              write_completed_queue stream @ map (\<lambda>req. req\<lparr>error := err\<rparr>) (write_queue stream)\<rparr>"
proof (induction stream err rule: uv__stream_flush_write_queue.induct)
  case (1 stream err)
  show ?case
  proof (cases "write_queue stream")
    case Nil
    then show ?thesis by (subst uv__stream_flush_write_queue.simps) simp
  next
    case (Cons req rest)
    then show ?thesis
      using "1.IH" [OF Cons] by (subst uv__stream_flush_write_queue.simps) simp
  qed
qed

lemma call_cb_write:
  "f \<noteq> None \<Longrightarrow> call_cb unified f ty r st =
     Inr [Callback (if unified then Invoke_callback_wrap else Direct_call) f ty r st]"
  by (auto simp: call_cb_def)

lemma write_req_size_ok:
  assumes "bufs req \<noteq> None" "write_index_in_range req"
    and "unat (pending_bytes cnt req) \<le> unat wqs"
  shows "uv__write_req_size cnt wqs req = Inr (pending_bytes cnt req)"
  using assms
  by (auto simp: uv__write_req_size_def pending_bytes_def write_index_in_range_def Let_def
        word_less_nat_alt split: option.splits)

lemma write_callbacks_run:
  assumes "sum_list (map (\<lambda>req. unat (pending_bytes cnt req)) (write_completed_queue stream))
             \<le> unat (write_queue_size stream)"
    and "list_all write_index_in_range (write_completed_queue stream)"
  shows "uv__write_callbacks unified cnt stream =
           Inr (stream\<lparr>write_completed_queue := [],
                       write_queue_size :=
                         write_queue_size stream
                           - sum_list (map (pending_bytes cnt) (write_completed_queue stream))\<rparr>,
                concat (map (write_done_events unified) (write_completed_queue stream)))"
  using assms
proof (induction q \<equiv> "write_completed_queue stream" arbitrary: stream)
  case Nil
  then show ?case by (subst uv__write_callbacks.simps) simp
next
  case (Cons req rest)
  let ?n = "pending_bytes cnt req"
  let ?next = "stream\<lparr>write_completed_queue := rest,
                       write_queue_size := write_queue_size stream - ?n\<rparr>"
  have q: "write_completed_queue stream = req # rest"
    using Cons.hyps(2) by simp
  have le: "unat ?n \<le> unat (write_queue_size stream)"
    using Cons.prems(1) q by simp
  have sz: "(if bufs req \<noteq> None
             then uv__write_req_size cnt (write_queue_size stream) req else Inr 0) = Inr ?n"
  proof (cases "bufs req")
    case None
    then show ?thesis by (simp add: pending_bytes_def)
  next
    case (Some bs)
    then show ?thesis
      using write_req_size_ok [of req cnt "write_queue_size stream"] le Cons.prems(2) q by simp
  qed
  have sub: "unat (write_queue_size stream - ?n) = unat (write_queue_size stream) - unat ?n"
    using le by (simp add: unat_sub word_le_nat_alt)
  have rec: "uv__write_callbacks unified cnt ?next =
               Inr (?next\<lparr>write_completed_queue := [],
                          write_queue_size :=
                            write_queue_size ?next
                              - sum_list (map (pending_bytes cnt) (write_completed_queue ?next))\<rparr>,
                    concat (map (write_done_events unified) (write_completed_queue ?next)))"
  proof (rule Cons.hyps(1))
    show "rest = write_completed_queue ?next" by simp
    show "sum_list (map (\<lambda>req. unat (pending_bytes cnt req)) (write_completed_queue ?next))
            \<le> unat (write_queue_size ?next)"
      using Cons.prems(1) q sub by simp
    show "list_all write_index_in_range (write_completed_queue ?next)"
      using Cons.prems(2) q by simp
  qed
  have called: "(if cb req \<noteq> None
                 then call_cb unified (cb req) UV_WRITE_CB (req_id req) (error req)
                 else Inr []) = Inr (tl (write_done_events unified req))"
    by (simp add: call_cb_write write_done_events_def)
  have "uv__write_callbacks unified cnt stream =
          Inr (?next\<lparr>write_completed_queue := [],
                      write_queue_size :=
                        write_queue_size ?next
                          - sum_list (map (pending_bytes cnt) (write_completed_queue ?next))\<rparr>,
               Req_unregister (req_id req) # tl (write_done_events unified req)
                 @ concat (map (write_done_events unified) (write_completed_queue ?next)))"
    by (subst uv__write_callbacks.simps) (simp only: q list.case sz called rec sum.case prod.case)
  then show ?case
    by (simp add: q write_done_events_def diff_diff_eq)
qed

lemma word_of_nat_sum_unat:
  "(word_of_nat (sum_list (map (\<lambda>x. unat (f x)) xs)) :: 'a::len word) = sum_list (map f xs)"
  by (induction xs) simp_all


lemma pending_bytes_error:
  "pending_bytes cnt (req\<lparr>error := e\<rparr>) = pending_bytes cnt req"
  by (simp add: pending_bytes_def split: option.splits)

lemma write_index_in_range_error:
  "write_index_in_range (req\<lparr>error := e\<rparr>) = write_index_in_range req"
  by (simp add: write_index_in_range_def split: option.splits)

lemma cancel_req_unified:
  "cancel_req True ty pending =
     Inr (case pending of
            None \<Rightarrow> []
          | Some req \<Rightarrow>
              [Req_unregister (req_id req),
               Callback Invoke_callback_wrap (cb req) ty (req_id req) (- ECANCELED)])"
  by (simp add: cancel_req_def call_cb_def split: option.splits)

text \<open>
  Claim C10. When a stream is destroyed (closed, its watcher stopped, its
  \<^verbatim>\<open>write_queue_size\<close> accounted for, \<^verbatim>\<open>UNIFIED_CALLBACK\<close> set), the run passes every
  assertion and: a pending connect request and a pending shutdown request are each
  unregistered and have their callback called once, through \<^verbatim>\<open>invoke_callback_wrap\<close>,
  with \<^verbatim>\<open>-ECANCELED\<close>; both request pointers end \<^verbatim>\<open>NULL\<close>; every request of the write
  queue gets the error \<^verbatim>\<open>-ECANCELED\<close> and is completed after the requests that were
  completed already, its callback (if it has one) called with that error; both queues
  end empty and \<^verbatim>\<open>write_queue_size\<close> ends 0.
\<close>

theorem uv__stream_destroy_cancels_requests:
  assumes closed: "UV_CLOSED \<in> flags stream"
    and idle: "\<not> io_watcher_active stream"
    and accounted: "write_queue_size_accounted uv__count_bufs stream"
  shows "uv__stream_destroy True uv__count_bufs stream =
           Inr (stream\<lparr>connect_req := None, shutdown_req := None,
                       write_queue := [], write_completed_queue := [],
                       write_queue_size := 0\<rparr>,
                (case connect_req stream of
                   None \<Rightarrow> []
                 | Some req \<Rightarrow>
                     [Req_unregister (req_id req),
                      Callback Invoke_callback_wrap (cb req) UV_CONNECT_CB (req_id req) (- ECANCELED)])
                @ concat (map (write_done_events True)
                    (write_completed_queue stream
                       @ map (\<lambda>req. req\<lparr>error := - ECANCELED\<rparr>) (write_queue stream)))
                @ (case shutdown_req stream of
                     None \<Rightarrow> []
                   | Some req \<Rightarrow>
                       [Req_unregister (req_id req),
                        Callback Invoke_callback_wrap (cb req) UV_SHUTDOWN_CB (req_id req) (- ECANCELED)]))"
proof -
  let ?cancelled = "map (\<lambda>req. req\<lparr>error := - ECANCELED\<rparr>) (write_queue stream)"
  let ?done = "write_completed_queue stream @ ?cancelled"
  let ?flushed = "uv__stream_flush_write_queue (stream\<lparr>connect_req := None\<rparr>) (- ECANCELED)"
  have flushed: "?flushed = stream\<lparr>connect_req := None, write_queue := [],
                                   write_completed_queue := ?done\<rparr>"
    by (simp add: flush_all)
  have bytes: "map (\<lambda>req. unat (pending_bytes uv__count_bufs req)) ?done =
               map (\<lambda>req. unat (pending_bytes uv__count_bufs req))
                 (write_completed_queue stream @ write_queue stream)"
    by (simp add: pending_bytes_error)
  have total: "unat (write_queue_size stream) =
               sum_list (map (\<lambda>req. unat (pending_bytes uv__count_bufs req)) ?done)"
    using accounted unfolding bytes by (simp add: write_queue_size_accounted_def Let_def)
  have in_range: "list_all write_index_in_range ?done"
    using accounted
    by (auto simp: write_queue_size_accounted_def Let_def list_all_iff write_index_in_range_error)
  have zero: "write_queue_size stream - sum_list (map (pending_bytes uv__count_bufs) ?done) = 0"
  proof -
    have "sum_list (map (pending_bytes uv__count_bufs) ?done) =
            word_of_nat (unat (write_queue_size stream))"
      unfolding total by (rule word_of_nat_sum_unat [symmetric])
    then show ?thesis by simp
  qed
  have run: "uv__write_callbacks True uv__count_bufs ?flushed =
               Inr (stream\<lparr>connect_req := None, write_queue := [],
                           write_completed_queue := [], write_queue_size := 0\<rparr>,
                    concat (map (write_done_events True) ?done))"
    unfolding flushed
    using write_callbacks_run [of uv__count_bufs
            "stream\<lparr>connect_req := None, write_queue := [], write_completed_queue := ?done\<rparr>" True]
          total in_range zero
    by simp
  show ?thesis
    unfolding uv__stream_destroy_def
    by (simp only: closed idle run cancel_req_unified) (simp add: closed)
qed

theorem uv__stream_destroy_cancels_requests_witness:
  "UV_CLOSED \<in> flags closing_stream \<and> \<not> io_watcher_active closing_stream
   \<and> write_queue_size_accounted sum_bufs closing_stream
   \<and> uv__stream_destroy True sum_bufs closing_stream =
       Inr (closing_stream\<lparr>connect_req := None, shutdown_req := None,
                           write_queue := [], write_completed_queue := [],
                           write_queue_size := 0\<rparr>,
            [Req_unregister 1, Callback Invoke_callback_wrap (Some 100) UV_CONNECT_CB 1 (- 125),
             Req_unregister 3, Callback Invoke_callback_wrap (Some 300) UV_WRITE_CB 3 (- 32),
             Req_unregister 4, Callback Invoke_callback_wrap (Some 300) UV_WRITE_CB 4 (- 125),
             Req_unregister 5,
             Req_unregister 2, Callback Invoke_callback_wrap (Some 200) UV_SHUTDOWN_CB 2 (- 125)])"
proof -
  have closed: "UV_CLOSED \<in> flags closing_stream"
    by (simp add: closing_stream_def)
  have idle: "\<not> io_watcher_active closing_stream"
    by (simp add: closing_stream_def)
  have accounted: "write_queue_size_accounted sum_bufs closing_stream"
    by (simp add: write_queue_size_accounted_def closing_stream_def pending_bytes_def
          write_index_in_range_def sum_bufs_def)
  show ?thesis
    using uv__stream_destroy_cancels_requests [OF closed idle accounted] closed idle accounted
    by (simp add: closing_stream_def write_done_events_def ECANCELED_def)
qed

section \<open>Properties of the scheduler's interface\<close>

lemma schedule_point_UNIV: "UNIV = set schedule_points"
proof -
  have "point \<in> set schedule_points" for point
    by (cases point) (simp_all add: schedule_points_def)
  then show ?thesis by auto
qed

lemma map_of_spd_of_point:
  "map_of spd_of_point SCHEDULE_POINT_BEFORE_EXEC_CB = Some spd_before_exec_cb_t"
  "map_of spd_of_point SCHEDULE_POINT_AFTER_EXEC_CB = Some spd_after_exec_cb_t"
  "map_of spd_of_point SCHEDULE_POINT_LOOPER_BEFORE_EPOLL = Some spd_before_epoll_t"
  "map_of spd_of_point SCHEDULE_POINT_LOOPER_AFTER_EPOLL = Some spd_after_epoll_t"
  "map_of spd_of_point SCHEDULE_POINT_LOOPER_IOPOLL_BEFORE_HANDLING_EVENTS =
     Some spd_iopoll_before_handling_events_t"
  "map_of spd_of_point SCHEDULE_POINT_LOOPER_GETTING_DONE = Some spd_getting_done_t"
  "map_of spd_of_point SCHEDULE_POINT_LOOPER_RUN_CLOSING = Some spd_looper_run_closing_t"
  "map_of spd_of_point SCHEDULE_POINT_TIMER_READY = Some spd_timer_ready_t"
  "map_of spd_of_point SCHEDULE_POINT_TIMER_RUN = Some spd_timer_run_t"
  "map_of spd_of_point SCHEDULE_POINT_TIMER_NEXT_TIMEOUT = Some spd_timer_next_timeout_t"
  "map_of spd_of_point SCHEDULE_POINT_TP_WANTS_WORK = Some spd_wants_work_t"
  "map_of spd_of_point SCHEDULE_POINT_TP_GETTING_WORK = Some spd_getting_work_t"
  "map_of spd_of_point SCHEDULE_POINT_TP_GOT_WORK = Some spd_got_work_t"
  "map_of spd_of_point SCHEDULE_POINT_TP_BEFORE_PUT_DONE = Some spd_before_put_done_t"
  "map_of spd_of_point SCHEDULE_POINT_TP_AFTER_PUT_DONE = Some spd_after_put_done_t"
  by (simp_all add: spd_of_point_def)

lemma spd_of_point_inj: "inj (map_of spd_of_point)"
proof (rule injI)
  fix p q
  assume "map_of spd_of_point p = map_of spd_of_point q"
  then show "p = q"
    by (cases p; cases q; simp add: map_of_spd_of_point)
qed

text \<open>
  Claim C2, as stated, asks that no two schedule points share their SPD. The header
  says otherwise: "{before,after}_exec_cb share the same structure". The two points
  that bracket a callback are different points with one structure.
\<close>

theorem spd_structures_shared_counterexample:
  "SCHEDULE_POINT_BEFORE_EXEC_CB \<noteq> SCHEDULE_POINT_AFTER_EXEC_CB
   \<and> spd_struct_of_point SCHEDULE_POINT_BEFORE_EXEC_CB
       = spd_struct_of_point SCHEDULE_POINT_AFTER_EXEC_CB"
  by (simp add: spd_struct_of_point_def map_of_spd_of_point)

text \<open>
  Claim C2, amended. Every schedule point has an SPD type; the fifteen points have
  fifteen different type names (each with its own \<^verbatim>\<open>_init\<close> and \<^verbatim>\<open>_is_valid\<close>), but
  four of the names repeat another's structure: AFTER_EXEC_CB has the structure of
  BEFORE_EXEC_CB, TP_BEFORE_PUT_DONE and TP_AFTER_PUT_DONE that of TP_GOT_WORK, and
  LOOPER_GETTING_DONE that of TP_GETTING_WORK. The fifteen points carry eleven
  structures in all.
\<close>

theorem spd_of_point_total_and_shared:
  "(\<forall>point. spd_struct_of_point point \<noteq> None)
   \<and> inj (map_of spd_of_point)
   \<and> spd_struct_of_point SCHEDULE_POINT_AFTER_EXEC_CB
       = spd_struct_of_point SCHEDULE_POINT_BEFORE_EXEC_CB
   \<and> spd_struct_of_point SCHEDULE_POINT_TP_BEFORE_PUT_DONE
       = spd_struct_of_point SCHEDULE_POINT_TP_GOT_WORK
   \<and> spd_struct_of_point SCHEDULE_POINT_TP_AFTER_PUT_DONE
       = spd_struct_of_point SCHEDULE_POINT_TP_GOT_WORK
   \<and> spd_struct_of_point SCHEDULE_POINT_LOOPER_GETTING_DONE
       = spd_struct_of_point SCHEDULE_POINT_TP_GETTING_WORK
   \<and> card (range spd_struct_of_point) = 11"
proof -
  have total: "spd_struct_of_point point \<noteq> None" for point
    by (cases point) (simp_all add: spd_struct_of_point_def map_of_spd_of_point)
  have "range spd_struct_of_point = set (map spd_struct_of_point schedule_points)"
    by (simp add: schedule_point_UNIV)
  also have "card \<dots> = length (remdups (map spd_struct_of_point schedule_points))"
    by (rule List.card_set)
  also have "\<dots> = 11"
    by (simp add: schedule_points_def spd_struct_of_point_def map_of_spd_of_point)
  finally have eleven: "card (range spd_struct_of_point) = 11" .
  show ?thesis
    using total spd_of_point_inj eleven
    by (simp add: spd_struct_of_point_def map_of_spd_of_point)
qed

text \<open>
  Claim C9. The details of SCHEDULE_POINT_LOOPER_GETTING_DONE are the structure of
  SCHEDULE_POINT_TP_GETTING_WORK ("getting_{work,done} share the same structure"):
  after the magic number, an input pointer \<^verbatim>\<open>wq\<close> to a queue ("A non-empty wq. Caller
  must ensure mutex") and an output \<^verbatim>\<open>int index\<close> ("The index to choose. A choice of 0
  means 'treat wq as FIFO'"). So the implementation steers the looper's pick from the
  done queue through the same output as a worker's pick from the work queue.
\<close>

theorem spd_getting_done_shape:
  "spd_struct_of_point SCHEDULE_POINT_LOOPER_GETTING_DONE
     = spd_struct_of_point SCHEDULE_POINT_TP_GETTING_WORK
   \<and> spd_members_of_point SCHEDULE_POINT_LOOPER_GETTING_DONE
       = spd_members_of_point SCHEDULE_POINT_TP_GETTING_WORK
   \<and> spd_members_of_point SCHEDULE_POINT_LOOPER_GETTING_DONE
       = Some [(''magic'', C_int, Magic),
               (''wq'', C_ptr (C_named ''QUEUE''), Input),
               (''index'', C_int, Output)]"
  by (simp add: spd_members_of_point_def spd_struct_of_point_def map_of_spd_of_point)

text \<open>
  Claim C3, as stated, counts five slots in the dispatch table. The structure has six.
\<close>

theorem schedulerImpl_five_slots_counterexample:
  "length schedulerImpl_s_members \<noteq> 5"
  by (simp add: schedulerImpl_s_members_def)

text \<open>
  Claim C3, amended. \<^verbatim>\<open>struct schedulerImpl_s\<close> has exactly six members, each a pointer
  to a function: register_lcbn, next_lcbn_type, thread_yield, emit, lcbns_remaining and
  schedule_has_diverged. A scheduler implementation is a value of the structure, so it
  is made of exactly these six functions ("Each scheduler implementation must define
  these APIs").
\<close>

theorem schedulerImpl_six_slots:
  "map fst schedulerImpl_s_members =
     [''register_lcbn'', ''next_lcbn_type'', ''thread_yield'', ''emit'',
      ''lcbns_remaining'', ''schedule_has_diverged'']
   \<and> length schedulerImpl_s_members = 6
   \<and> list_all (\<lambda>(name, ty). is_function_pointer ty) schedulerImpl_s_members
   \<and> (impl :: ('lcbn, 'spd, 'w) schedulerImpl_s) =
       \<lparr>register_lcbn = register_lcbn impl, next_lcbn_type = next_lcbn_type impl,
        thread_yield = thread_yield impl, emit = emit impl,
        lcbns_remaining = lcbns_remaining impl,
        schedule_has_diverged = schedule_has_diverged impl\<rparr>"
  by (simp add: schedulerImpl_s_members_def)

section \<open>Properties of the public scheduler and the callback-tree implementation\<close>

lemma cbtree_impl_slots:
  "register_lcbn cbtree_impl = cbtree_register_lcbn"
  "next_lcbn_type cbtree_impl = cbtree_next_lcbn_type"
  "thread_yield cbtree_impl = cbtree_thread_yield"
  "emit cbtree_impl = cbtree_emit"
  "lcbns_remaining cbtree_impl = cbtree_lcbns_remaining"
  "schedule_has_diverged cbtree_impl = cbtree_schedule_has_diverged"
  by (simp_all add: cbtree_impl_def)

lemma lcbns_of_append: "lcbns_of (xs @ ys) = lcbns_of xs @ lcbns_of ys"
  by (induction xs rule: lcbns_of.induct) simp_all

lemma lcbns_of_decisions: "lcbns_of (takeWhile is_decision xs) = []"
  by (induction xs rule: lcbns_of.induct) simp_all

lemma lcbns_of_dropWhile: "lcbns_of (dropWhile is_decision xs) = lcbns_of xs"
  by (induction xs rule: lcbns_of.induct) simp_all

lemma length_lcbns_of: "length (lcbns_of xs) \<le> length xs"
  by (induction xs rule: lcbns_of.induct) simp_all

lemma next_lcbn:
  assumes "lcbns_of xs = e # rest"
  obtains r where "dropWhile is_decision xs = Executed e # r" and "lcbns_of r = rest"
proof -
  have "lcbns_of (dropWhile is_decision xs) = e # rest"
    using assms by (simp add: lcbns_of_dropWhile)
  moreover have "dropWhile is_decision xs = [] \<or> \<not> is_decision (hd (dropWhile is_decision xs))"
    using hd_dropWhile [of is_decision xs] by blast
  ultimately show thesis
    using that by (cases "dropWhile is_decision xs" rule: lcbns_of.cases) auto
qed

lemma consumed_eqI:
  assumes "pre @ unconsumed s = schedule_log s"
  shows "consumed s = pre"
proof -
  have "length (schedule_log s) - length (unconsumed s) = length pre"
    using arg_cong [OF assms, of length] by simp
  then show ?thesis
    by (simp add: consumed_def flip: assms)
qed

lemma valid_exec_cb:
  assumes "schedule_point_looks_valid point (Spd_exec_cb ty l)"
  shows "point = SCHEDULE_POINT_BEFORE_EXEC_CB \<or> point = SCHEDULE_POINT_AFTER_EXEC_CB"
  using assms
  by (cases point) (auto simp: schedule_point_looks_valid_def map_of_spd_of_point)

lemma valid_other:
  assumes "schedule_point_looks_valid point (Spd_other ty)"
  shows "point \<noteq> SCHEDULE_POINT_BEFORE_EXEC_CB" and "point \<noteq> SCHEDULE_POINT_AFTER_EXEC_CB"
  using assms
  by (auto simp: schedule_point_looks_valid_def map_of_spd_of_point)

lemma replay_step_frame:
  "schedule_log (replay_step point details s) = schedule_log s"
  "n_executed (replay_step point details s) = n_executed s"
  "diverged (replay_step point details s) = diverged s"
  "mode (replay_step point details s) = mode s"
  "args_mode (replay_step point details s) = args_mode s"
  "schedule_file (replay_step point details s) = schedule_file s"
  "io_error (replay_step point details s) = io_error s"
  "recorded (replay_step point details s) = recorded s"
  "min_n_executed_before_divergence_allowed (replay_step point details s)
     = min_n_executed_before_divergence_allowed s"
  by (simp_all add: replay_step_def split: spd.splits list.splits log_record.splits)

lemma yield_unfold:
  "scheduler_thread_yield cbtree_impl point details s =
     (if \<not> schedule_point_looks_valid point details
      then Inl (Assertion_failed ''schedule_point_looks_valid(point, schedule_point_details)'')
      else
        let logged = s\<lparr>recorded := recorded s @ yield_record point details\<rparr>;
            finished = (if mode s = SCHEDULER_MODE_REPLAY
                        then replay_step point details logged else logged);
            counted = (\<lambda>s'. if point = SCHEDULE_POINT_AFTER_EXEC_CB
                             then s'\<lparr>n_executed := n_executed s' + 1\<rparr> else s')
        in if divergence_detected point details s
           then (if n_executed s < min_n_executed_before_divergence_allowed s
                 then Inl Divergence_fatal
                 else Inr ((), details,
                           counted (finished\<lparr>mode := SCHEDULER_MODE_RECORD, diverged := True\<rparr>)))
           else Inr ((), details, counted finished))"
  by (simp add: scheduler_thread_yield_def cbtree_impl_slots cbtree_thread_yield_def
        diverge_def Let_def replay_step_frame)

lemma yield_frame:
  assumes "scheduler_thread_yield cbtree_impl point details s = Inr (u, details', s')"
  shows "schedule_log s' = schedule_log s"
    and "n_executed s' = n_executed s + (if point = SCHEDULE_POINT_AFTER_EXEC_CB then 1 else 0)"
    and "diverged s \<Longrightarrow> diverged s'"
    and "args_mode s' = args_mode s"
    and "schedule_file s' = schedule_file s"
    and "details' = details"
    and "schedule_point_looks_valid point details"
    and "io_error s' = io_error s"
    and "recorded s' = recorded s @ yield_record point details"
  using assms
  by (auto simp: yield_unfold Let_def replay_step_frame split: if_splits)

lemma yield_not_diverged:
  assumes "scheduler_thread_yield cbtree_impl point details s = Inr (u, details', s')"
    and "\<not> diverged s'"
    and "mode s = SCHEDULER_MODE_REPLAY"
  shows "\<not> divergence_detected point details s"
    and "mode s' = SCHEDULER_MODE_REPLAY"
    and "unconsumed s' = unconsumed (replay_step point details s)"
  using assms
  by (auto simp: yield_unfold Let_def replay_step_frame replay_step_def
      split: if_splits spd.splits list.splits log_record.splits)

lemma replay_step_consumes:
  assumes valid: "schedule_point_looks_valid point details"
    and quiet: "\<not> divergence_detected point details s"
    and replay: "mode s = SCHEDULER_MODE_REPLAY"
  obtains eaten where "unconsumed s = eaten @ unconsumed (replay_step point details s)"
    and "length (lcbns_of eaten) = (if point = SCHEDULE_POINT_AFTER_EXEC_CB then 1 else 0)"
proof (cases details)
  case (Spd_exec_cb ty l)
  show thesis
  proof (cases "point = SCHEDULE_POINT_AFTER_EXEC_CB")
    case True
    have "remaining s \<noteq> []"
      using quiet replay True Spd_exec_cb by (auto simp: divergence_detected_def)
    then obtain e rest where "lcbns_of (unconsumed s) = e # rest"
      by (cases "remaining s") (auto simp: remaining_def)
    then obtain r where r: "dropWhile is_decision (unconsumed s) = Executed e # r"
      by (rule next_lcbn)
    let ?eaten = "takeWhile is_decision (unconsumed s) @ [Executed e]"
    have a: "unconsumed s = ?eaten @ unconsumed (replay_step point details s)"
      using takeWhile_dropWhile_id [of is_decision "unconsumed s"] r True Spd_exec_cb
      by (simp add: replay_step_def)
    have b: "length (lcbns_of ?eaten) = (if point = SCHEDULE_POINT_AFTER_EXEC_CB then 1 else 0)"
      using True by (simp add: lcbns_of_append lcbns_of_decisions)
    show thesis using that [OF a b] .
  next
    case False
    then have "unconsumed s = [] @ unconsumed (replay_step point details s)"
      using Spd_exec_cb by (simp add: replay_step_def)
    then show thesis using that [of "[]"] False by simp
  qed
next
  case (Spd_other ty)
  have not_after: "point \<noteq> SCHEDULE_POINT_AFTER_EXEC_CB"
    using valid_other(2) valid Spd_other by blast
  show thesis
  proof (cases "unconsumed s" rule: lcbns_of.cases)
    case 1
    then have "unconsumed s = [] @ unconsumed (replay_step point details s)"
      using Spd_other by (simp add: replay_step_def)
    then show thesis using that [of "[]"] not_after by simp
  next
    case (2 e rest)
    then have "unconsumed s = [] @ unconsumed (replay_step point details s)"
      using Spd_other by (simp add: replay_step_def)
    then show thesis using that [of "[]"] not_after by simp
  next
    case (3 expected rest)
    then have "point = expected"
      using quiet replay Spd_other by (simp add: divergence_detected_def)
    then have "unconsumed s = [Decided expected] @ unconsumed (replay_step point details s)"
      using 3 Spd_other by (simp add: replay_step_def)
    then show thesis using that [of "[Decided expected]"] not_after by simp
  qed
qed

lemma yield_replaying:
  assumes yield: "scheduler_thread_yield cbtree_impl point details s = Inr (u, details', s')"
    and nd: "\<not> diverged s'"
    and inv: "replaying s"
  shows "replaying s'"
proof -
  have replay: "mode s = SCHEDULER_MODE_REPLAY"
    and whole: "consumed s @ unconsumed s = schedule_log s"
    and n: "n_executed s = length (lcbns_of (consumed s))"
    using inv by (simp_all add: replaying_def)
  note quiet = yield_not_diverged [OF yield nd replay]
  obtain eaten where eaten: "unconsumed s = eaten @ unconsumed s'"
    and one: "length (lcbns_of eaten) = (if point = SCHEDULE_POINT_AFTER_EXEC_CB then 1 else 0)"
    using replay_step_consumes [OF yield_frame(7) [OF yield] quiet(1) replay] quiet(3)
    by metis
  have "(consumed s @ eaten) @ unconsumed s' = schedule_log s'"
    using whole eaten yield_frame(1) [OF yield] by simp
  then have "consumed s' = consumed s @ eaten"
    by (rule consumed_eqI)
  then show ?thesis
    using whole eaten n one nd quiet(2) yield_frame(1,2) [OF yield]
    by (simp add: replaying_def lcbns_of_append)
qed

lemma run_diverged:
  "run_yields ys s = Inr s' \<Longrightarrow> diverged s \<Longrightarrow> diverged s'"
proof (induction ys arbitrary: s)
  case Nil
  then show ?case by simp
next
  case (Cons y ys)
  obtain point details where y: "y = (point, details)" by (cases y)
  from Cons.prems(1) obtain u d1 s1
    where step: "scheduler_thread_yield cbtree_impl point details s = Inr (u, d1, s1)"
      and rest: "run_yields ys s1 = Inr s'"
    by (auto simp: y split: sum.splits)
  show ?case
    using Cons.IH [OF rest] yield_frame(3) [OF step] Cons.prems(2) by simp
qed

lemma run_replaying:
  "run_yields ys s = Inr s' \<Longrightarrow> \<not> diverged s' \<Longrightarrow> replaying s \<Longrightarrow>
     replaying s' \<and> schedule_log s' = schedule_log s
     \<and> n_executed s' = n_executed s + after_exec_cb_yields ys"
proof (induction ys arbitrary: s)
  case Nil
  then show ?case by (simp add: after_exec_cb_yields_def)
next
  case (Cons y ys)
  obtain point details where y: "y = (point, details)" by (cases y)
  from Cons.prems(1) obtain u d1 s1
    where step: "scheduler_thread_yield cbtree_impl point details s = Inr (u, d1, s1)"
      and rest: "run_yields ys s1 = Inr s'"
    by (auto simp: y split: sum.splits)
  have nd1: "\<not> diverged s1"
    using run_diverged [OF rest] Cons.prems(2) by blast
  have inv1: "replaying s1"
    using yield_replaying [OF step nd1 Cons.prems(3)] .
  show ?case
    using Cons.IH [OF rest Cons.prems(2) inv1] yield_frame(1,2) [OF step]
    by (simp add: y after_exec_cb_yields_def)
qed

lemma yield_records_Cons:
  "yield_records ((point, details) # ys) = yield_record point details @ yield_records ys"
  by (simp add: yield_records_def)

lemma yield_records_append:
  "yield_records (xs @ ys) = yield_records xs @ yield_records ys"
  by (simp add: yield_records_def)

lemma run_frame:
  "run_yields ys s = Inr s' \<Longrightarrow>
     recorded s' = recorded s @ yield_records ys
     \<and> args_mode s' = args_mode s \<and> schedule_file s' = schedule_file s
     \<and> io_error s' = io_error s"
proof (induction ys arbitrary: s)
  case Nil
  then show ?case by (simp add: yield_records_def)
next
  case (Cons y ys)
  obtain point details where y: "y = (point, details)" by (cases y)
  from Cons.prems(1) obtain u d1 s1
    where step: "scheduler_thread_yield cbtree_impl point details s = Inr (u, d1, s1)"
      and rest: "run_yields ys s1 = Inr s'"
    by (auto simp: y split: sum.splits)
  show ?case
    using Cons.IH [OF rest] yield_frame(4,5,8,9) [OF step]
    by (simp add: y yield_records_Cons)
qed

lemma yield_recording:
  assumes "scheduler_thread_yield cbtree_impl point details s = Inr (u, details', s')"
    and "mode s = SCHEDULER_MODE_RECORD"
  shows "mode s' = SCHEDULER_MODE_RECORD"
  using assms
  by (auto simp: yield_unfold Let_def divergence_detected_def split: if_splits)

lemma run_recording:
  "run_yields ys s = Inr s' \<Longrightarrow> mode s = SCHEDULER_MODE_RECORD \<Longrightarrow>
     mode s' = SCHEDULER_MODE_RECORD"
proof (induction ys arbitrary: s)
  case Nil
  then show ?case by simp
next
  case (Cons y ys)
  obtain point details where y: "y = (point, details)" by (cases y)
  from Cons.prems(1) obtain u d1 s1
    where step: "scheduler_thread_yield cbtree_impl point details s = Inr (u, d1, s1)"
      and rest: "run_yields ys s1 = Inr s'"
    by (auto simp: y split: sum.splits)
  show ?case
    using Cons.IH [OF rest yield_recording [OF step Cons.prems(2)]] .
qed

lemma init_replaying:
  assumes "scheduler_init SCHEDULER_MODE_REPLAY file args fs io_err = Inr s"
  shows "replaying s" and "n_executed s = 0" and "fs file = Some (schedule_log s)"
    and "args_mode s = SCHEDULER_MODE_REPLAY" and "schedule_file s = file"
    and "recorded s = []"
  using assms
  by (auto simp: scheduler_init_def replaying_def consumed_def split: option.splits)

lemma replaying_schedule:
  assumes "replaying s"
  shows "schedule s = lcbns_of (consumed s) @ remaining s"
    and "remaining s = drop (n_executed s) (schedule s)"
    and "n_executed s \<le> length (schedule s)"
    and "n_executed s \<le> length (consumed s)"
proof -
  have whole: "consumed s @ unconsumed s = schedule_log s"
    and n: "n_executed s = length (lcbns_of (consumed s))"
    using assms by (simp_all add: replaying_def)
  show split: "schedule s = lcbns_of (consumed s) @ remaining s"
    by (simp add: schedule_def remaining_def flip: whole lcbns_of_append)
  show "remaining s = drop (n_executed s) (schedule s)"
    by (simp add: split n)
  show "n_executed s \<le> length (schedule s)"
    by (simp add: split n)
  show "n_executed s \<le> length (consumed s)"
    by (simp add: n length_lcbns_of)
qed

lemma example_init:
  "scheduler_init SCHEDULER_MODE_REPLAY ''schedule.txt'' (min_n, 3) example_files False
     = Inr (example_start min_n)"
  by (simp add: scheduler_init_def example_files_def example_start_def)

lemma example_valid:
  "schedule_point_looks_valid SCHEDULE_POINT_BEFORE_EXEC_CB (Spd_exec_cb spd_before_exec_cb_t l)"
  "schedule_point_looks_valid SCHEDULE_POINT_AFTER_EXEC_CB (Spd_exec_cb spd_after_exec_cb_t l)"
  "schedule_point_looks_valid SCHEDULE_POINT_LOOPER_BEFORE_EPOLL (Spd_other spd_before_epoll_t)"
  "schedule_point_looks_valid SCHEDULE_POINT_LOOPER_AFTER_EPOLL (Spd_other spd_after_epoll_t)"
  by (simp_all add: schedule_point_looks_valid_def map_of_spd_of_point)

lemma example_run:
  "run_yields example_yields (example_start min_n) = Inr (example_replayed min_n)"
  by (simp add: example_yields_def example_start_def example_replayed_def example_schedule_def
        example_connect_def example_write_def example_shutdown_def
        yield_unfold example_valid divergence_detected_def remaining_def lcbn_matches_def
        replay_step_def yield_record_def)

lemma example_replayed_facts:
  "\<not> diverged (example_replayed n)"
  "scheduler_get_scheduler_mode (example_replayed n) = SCHEDULER_MODE_REPLAY"
  "scheduler_n_executed (example_replayed n) = 2"
  "args_mode (example_replayed n) = SCHEDULER_MODE_REPLAY"
  "\<not> io_error (example_replayed n)"
  "schedule_file (example_replayed n) = ''schedule.txt''"
  "min_n_executed_before_divergence_allowed (example_replayed n) = n"
  "n_executed (example_replayed n) = 2"
  "schedule (example_replayed n) = [example_connect, example_write, example_shutdown]"
  "remaining (example_replayed n) = [example_shutdown]"
  "consumed (example_replayed n) = take 6 example_schedule"
  "unconsumed (example_replayed n) = drop 6 example_schedule"
  "schedule_log (example_replayed n) = example_schedule"
  by (simp_all add: example_replayed_def example_start_def scheduler_get_scheduler_mode_def
        scheduler_n_executed_def schedule_def remaining_def consumed_def example_schedule_def)

lemma example_unexpected_run:
  "run_yields (example_yields @ [(SCHEDULE_POINT_BEFORE_EXEC_CB, example_unexpected)])
     (example_start 2)
   = Inr ((example_replayed 2)\<lparr>mode := SCHEDULER_MODE_RECORD, diverged := True\<rparr>)"
  by (simp add: example_yields_def example_start_def example_replayed_def example_schedule_def
        example_connect_def example_write_def example_shutdown_def example_unexpected_def
        yield_unfold example_valid divergence_detected_def remaining_def lcbn_matches_def
        replay_step_def yield_record_def)

lemma emit_writes_log:
  "\<not> io_error s \<Longrightarrow>
     scheduler_emit cbtree_impl s =
       Inr ((), s\<lparr>files := (files s)(scheduler_output_file s \<mapsto> recorded s)\<rparr>)"
  by (simp add: scheduler_emit_def cbtree_impl_slots cbtree_emit_def)


lemma yield_on_divergence:
  assumes "schedule_point_looks_valid point details"
    and "divergence_detected point details s"
  shows "n_executed s < min_n_executed_before_divergence_allowed s \<Longrightarrow>
           scheduler_thread_yield cbtree_impl point details s = Inl Divergence_fatal"
    and "min_n_executed_before_divergence_allowed s \<le> n_executed s \<Longrightarrow>
           \<exists>s'. scheduler_thread_yield cbtree_impl point details s = Inr ((), details, s')
                \<and> mode s' = SCHEDULER_MODE_RECORD \<and> diverged s'"
  using assms by (auto simp: yield_unfold Let_def)

lemma example_flip:
  "scheduler_thread_yield cbtree_impl SCHEDULE_POINT_BEFORE_EXEC_CB example_unexpected
     (example_replayed 2)
   = Inr ((), example_unexpected,
          (example_replayed 2)\<lparr>mode := SCHEDULER_MODE_RECORD, diverged := True\<rparr>)"
  by (simp add: example_start_def example_replayed_def example_schedule_def
        example_connect_def example_write_def example_shutdown_def example_unexpected_def
        yield_unfold example_valid divergence_detected_def remaining_def lcbn_matches_def
        replay_step_def yield_record_def)




text \<open>
  Claim C8. After any run of a scheduler started in REPLAY mode,
  \<^verbatim>\<open>scheduler_next_lcbn_type\<close> returns \<^verbatim>\<open>CALLBACK_TYPE_ANY\<close> once divergence has been
  declared, and otherwise the callback type of the next LCBN of the schedule, the one
  at position \<^verbatim>\<open>scheduler_n_executed\<close>, when there is one.
\<close>

theorem next_lcbn_type_follows_schedule:
  assumes init: "scheduler_init SCHEDULER_MODE_REPLAY file args fs io_err = Inr s0"
    and run: "run_yields ys s0 = Inr s"
  shows "(diverged s \<longrightarrow>
            scheduler_next_lcbn_type cbtree_impl s = Inr (CALLBACK_TYPE_ANY, s))
         \<and> (\<not> diverged s \<and> scheduler_n_executed s < length (schedule s) \<longrightarrow>
              scheduler_next_lcbn_type cbtree_impl s
                = Inr (cb_type (schedule s ! scheduler_n_executed s), s))"
proof (cases "diverged s")
  case True
  then show ?thesis
    by (simp add: scheduler_next_lcbn_type_def cbtree_impl_slots cbtree_next_lcbn_type_def)
next
  case False
  have inv: "replaying s"
    using run_replaying [OF run False init_replaying(1) [OF init]] by simp
  show ?thesis
  proof (cases "n_executed s < length (schedule s)")
    case True
    have replay: "mode s = SCHEDULER_MODE_REPLAY"
      using inv by (simp add: replaying_def)
    have next_up: "remaining s = schedule s ! n_executed s # drop (Suc (n_executed s)) (schedule s)"
      using replaying_schedule(2) [OF inv] True by (simp add: Cons_nth_drop_Suc)
    show ?thesis
      using \<open>\<not> diverged s\<close> replay
      by (simp add: scheduler_next_lcbn_type_def cbtree_impl_slots cbtree_next_lcbn_type_def
            next_up scheduler_n_executed_def)
  next
    case False
    then show ?thesis using \<open>\<not> diverged s\<close> by (simp add: scheduler_n_executed_def)
  qed
qed

theorem next_lcbn_type_follows_schedule_witness:
  "scheduler_init SCHEDULER_MODE_REPLAY ''schedule.txt'' (2, 3) example_files False
     = Inr (example_start 2)
   \<and> run_yields example_yields (example_start 2) = Inr (example_replayed 2)
   \<and> \<not> diverged (example_replayed 2)
   \<and> scheduler_n_executed (example_replayed 2) < length (schedule (example_replayed 2))
   \<and> scheduler_next_lcbn_type cbtree_impl (example_replayed 2)
       = Inr (UV_SHUTDOWN_CB, example_replayed 2)
   \<and> run_yields (example_yields @ [(SCHEDULE_POINT_BEFORE_EXEC_CB, example_unexpected)])
         (example_start 2)
       = Inr ((example_replayed 2)\<lparr>mode := SCHEDULER_MODE_RECORD, diverged := True\<rparr>)
   \<and> scheduler_next_lcbn_type cbtree_impl
         ((example_replayed 2)\<lparr>mode := SCHEDULER_MODE_RECORD, diverged := True\<rparr>)
       = Inr (CALLBACK_TYPE_ANY,
              (example_replayed 2)\<lparr>mode := SCHEDULER_MODE_RECORD, diverged := True\<rparr>)"
proof -
  have third: "cb_type (schedule (example_replayed 2) ! scheduler_n_executed (example_replayed 2))
                 = UV_SHUTDOWN_CB"
    by (simp add: example_replayed_facts example_shutdown_def)
  show ?thesis
    using next_lcbn_type_follows_schedule [OF example_init example_run, of 2]
          next_lcbn_type_follows_schedule [OF example_init example_unexpected_run]
          example_init [of 2] example_run [of 2] example_unexpected_run third
    by (simp add: example_replayed_facts)
qed

text \<open>
  Claim C5. In a run started in REPLAY mode, when a yield detects divergence (a
  callback about to run that the schedule does not expect, children that differ, a
  non-callback point other than the expected one, or a stall past the timeout): with
  fewer executed LCBNs than \<^verbatim>\<open>min_n_executed_before_divergence_allowed\<close> the yield is
  fatal; with at least that many it returns as any other yield does, and the scheduler
  is in RECORD mode, has diverged, and stays in RECORD mode over every later run of
  yields. The log is then the records of the yields replayed before the divergence,
  followed by the record of the diverging yield and the records of the yields made
  afterwards, and a later \<^verbatim>\<open>scheduler_emit\<close> (on a disk that can be written) stores
  exactly that log under the name of the schedule file followed by \<^verbatim>\<open>-replay\<close>.
\<close>

theorem divergence_fatal_below_threshold_else_record:
  assumes init: "scheduler_init SCHEDULER_MODE_REPLAY file args fs io_err = Inr s0"
    and replayed: "run_yields ys s0 = Inr s"
    and valid: "schedule_point_looks_valid point details"
    and detected: "divergence_detected point details s"
  shows "(n_executed s < min_n_executed_before_divergence_allowed s \<longrightarrow>
            scheduler_thread_yield cbtree_impl point details s = Inl Divergence_fatal)
         \<and> (min_n_executed_before_divergence_allowed s \<le> n_executed s \<longrightarrow>
              (\<exists>s'. scheduler_thread_yield cbtree_impl point details s = Inr ((), details, s')
                 \<and> scheduler_get_scheduler_mode s' = SCHEDULER_MODE_RECORD
                 \<and> diverged s'
                 \<and> (\<forall>later s''. run_yields later s' = Inr s'' \<longrightarrow>
                       scheduler_get_scheduler_mode s'' = SCHEDULER_MODE_RECORD
                       \<and> recorded s'' =
                           yield_records ys @ yield_record point details @ yield_records later
                       \<and> (\<not> io_error s'' \<longrightarrow>
                            scheduler_emit cbtree_impl s'' =
                              Inr ((), s''\<lparr>files := (files s'')
                                          (file @ ''-replay'' \<mapsto> recorded s'')\<rparr>)))))"
proof (intro conjI impI)
  assume "n_executed s < min_n_executed_before_divergence_allowed s"
  then show "scheduler_thread_yield cbtree_impl point details s = Inl Divergence_fatal"
    by (rule yield_on_divergence(1) [OF valid detected])
next
  assume "min_n_executed_before_divergence_allowed s \<le> n_executed s"
  then obtain s' where
    step: "scheduler_thread_yield cbtree_impl point details s = Inr ((), details, s')"
    and flipped: "mode s' = SCHEDULER_MODE_RECORD" "diverged s'"
    using yield_on_divergence(2) [OF valid detected] by blast
  have so_far: "recorded s = yield_records ys"
    and started: "args_mode s = SCHEDULER_MODE_REPLAY" "schedule_file s = file"
    using run_frame [OF replayed] init_replaying(4,5,6) [OF init] by simp_all
  have kept: "recorded s' = yield_records ys @ yield_record point details"
    "args_mode s' = SCHEDULER_MODE_REPLAY" "schedule_file s' = file"
    using yield_frame(4,5,9) [OF step] so_far started by simp_all
  have later: "scheduler_get_scheduler_mode s'' = SCHEDULER_MODE_RECORD
               \<and> recorded s'' =
                   yield_records ys @ yield_record point details @ yield_records later
               \<and> (\<not> io_error s'' \<longrightarrow>
                    scheduler_emit cbtree_impl s'' =
                      Inr ((), s''\<lparr>files := (files s'')
                                  (file @ ''-replay'' \<mapsto> recorded s'')\<rparr>))"
    if "run_yields later s' = Inr s''" for later s''
    using run_recording [OF that flipped(1)] run_frame [OF that] kept
    by (simp add: scheduler_get_scheduler_mode_def emit_writes_log scheduler_output_file_def)
  show "\<exists>s'. scheduler_thread_yield cbtree_impl point details s = Inr ((), details, s')
          \<and> scheduler_get_scheduler_mode s' = SCHEDULER_MODE_RECORD
          \<and> diverged s'
          \<and> (\<forall>later s''. run_yields later s' = Inr s'' \<longrightarrow>
                scheduler_get_scheduler_mode s'' = SCHEDULER_MODE_RECORD
                \<and> recorded s'' =
                    yield_records ys @ yield_record point details @ yield_records later
                \<and> (\<not> io_error s'' \<longrightarrow>
                     scheduler_emit cbtree_impl s'' =
                       Inr ((), s''\<lparr>files := (files s'')
                                   (file @ ''-replay'' \<mapsto> recorded s'')\<rparr>)))"
    using step flipped later
    by (intro exI [of _ s']) (simp add: scheduler_get_scheduler_mode_def)
qed

theorem divergence_fatal_below_threshold_else_record_witness:
  "scheduler_init SCHEDULER_MODE_REPLAY ''schedule.txt'' (100, 3) example_files False
     = Inr (example_start 100)
   \<and> scheduler_init SCHEDULER_MODE_REPLAY ''schedule.txt'' (2, 3) example_files False
       = Inr (example_start 2)
   \<and> run_yields example_yields (example_start 100) = Inr (example_replayed 100)
   \<and> run_yields example_yields (example_start 2) = Inr (example_replayed 2)
   \<and> schedule_point_looks_valid SCHEDULE_POINT_BEFORE_EXEC_CB example_unexpected
   \<and> divergence_detected SCHEDULE_POINT_BEFORE_EXEC_CB example_unexpected (example_replayed 100)
   \<and> divergence_detected SCHEDULE_POINT_BEFORE_EXEC_CB example_unexpected (example_replayed 2)
   \<and> scheduler_thread_yield cbtree_impl SCHEDULE_POINT_BEFORE_EXEC_CB example_unexpected
         (example_replayed 100)
       = Inl Divergence_fatal
   \<and> (\<exists>s' s''. scheduler_thread_yield cbtree_impl SCHEDULE_POINT_BEFORE_EXEC_CB
                  example_unexpected (example_replayed 2)
                = Inr ((), example_unexpected, s')
           \<and> scheduler_get_scheduler_mode s' = SCHEDULER_MODE_RECORD
           \<and> run_yields example_recorded_later s' = Inr s''
           \<and> recorded s'' =
               take 6 example_schedule
                 @ [Executed \<lparr>cb_type = UV_READ_CB, tree_path = [2], children = []\<rparr>,
                    Decided SCHEDULE_POINT_LOOPER_BEFORE_EPOLL]
           \<and> scheduler_emit cbtree_impl s''
               = Inr ((), s''\<lparr>files := (files s'')(''schedule.txt-replay'' \<mapsto> recorded s'')\<rparr>))"
proof -
  have valid: "schedule_point_looks_valid SCHEDULE_POINT_BEFORE_EXEC_CB example_unexpected"
    by (simp add: example_unexpected_def example_valid)
  have detected:
    "divergence_detected SCHEDULE_POINT_BEFORE_EXEC_CB example_unexpected (example_replayed n)" for n
    by (simp add: divergence_detected_def example_unexpected_def example_replayed_facts
          example_shutdown_def lcbn_matches_def)
       (simp add: example_replayed_def example_start_def)
  have fatal: "scheduler_thread_yield cbtree_impl SCHEDULE_POINT_BEFORE_EXEC_CB example_unexpected
                 (example_replayed 100) = Inl Divergence_fatal"
    using divergence_fatal_below_threshold_else_record
            [OF example_init example_run valid detected, of 100]
    by (simp add: example_replayed_facts)
  obtain s' where
    step: "scheduler_thread_yield cbtree_impl SCHEDULE_POINT_BEFORE_EXEC_CB example_unexpected
             (example_replayed 2) = Inr ((), example_unexpected, s')"
    and flipped: "scheduler_get_scheduler_mode s' = SCHEDULER_MODE_RECORD"
    and later: "\<forall>later s''. run_yields later s' = Inr s'' \<longrightarrow>
                  scheduler_get_scheduler_mode s'' = SCHEDULER_MODE_RECORD
                  \<and> recorded s'' =
                      yield_records example_yields
                        @ yield_record SCHEDULE_POINT_BEFORE_EXEC_CB example_unexpected
                        @ yield_records later
                  \<and> (\<not> io_error s'' \<longrightarrow>
                       scheduler_emit cbtree_impl s'' =
                         Inr ((), s''\<lparr>files := (files s'')
                                     (''schedule.txt'' @ ''-replay'' \<mapsto> recorded s'')\<rparr>))"
    using divergence_fatal_below_threshold_else_record
            [OF example_init example_run valid detected, of 2]
    by (auto simp: example_replayed_facts)
  have s': "s' = (example_replayed 2)\<lparr>mode := SCHEDULER_MODE_RECORD, diverged := True\<rparr>"
    using step example_flip by simp
  obtain s'' where run: "run_yields example_recorded_later s' = Inr s''"
    by (simp add: s' example_recorded_later_def yield_unfold example_valid
          divergence_detected_def yield_record_def)
  have io: "\<not> io_error s''"
    using run_frame [OF run] by (simp add: s' example_replayed_facts)
  have after: "recorded s'' =
                 yield_records example_yields
                   @ yield_record SCHEDULE_POINT_BEFORE_EXEC_CB example_unexpected
                   @ yield_records example_recorded_later"
    and emit: "scheduler_emit cbtree_impl s''
                 = Inr ((), s''\<lparr>files := (files s'')(''schedule.txt-replay'' \<mapsto> recorded s'')\<rparr>)"
    using later run io by auto
  have log: "recorded s'' =
               take 6 example_schedule
                 @ [Executed \<lparr>cb_type = UV_READ_CB, tree_path = [2], children = []\<rparr>,
                    Decided SCHEDULE_POINT_LOOPER_BEFORE_EPOLL]"
    unfolding after
    by (simp add: yield_records_def yield_record_def example_yields_def example_unexpected_def
          example_recorded_later_def example_schedule_def)
  show ?thesis
    using example_init [of 100] example_init [of 2] example_run [of 100] example_run [of 2]
          valid detected fatal step flipped run log emit
    by blast
qed




end
